theory Spec2Isabelle
  imports Main "HOL-Library.Word"
begin

section \<open>JavaScript strings\<close>

text \<open>
  A JavaScript string is a sequence of UTF-16 code units; \<open>length\<close> counts code units,
  as \<open>String.prototype.length\<close> does. ASCII literals of the source are written
  \<open>str ''...''\<close>.
\<close>

type_synonym jsstring = "16 word list"

definition str :: "string \<Rightarrow> jsstring" where
  "str s = map of_char s"

definition startsWith :: "jsstring \<Rightarrow> jsstring \<Rightarrow> bool" where
  "startsWith s p = (take (length p) s = p)"

definition endsWith :: "jsstring \<Rightarrow> jsstring \<Rightarrow> bool" where
  "endsWith s p = (if length p \<le> length s then drop (length s - length p) s = p else False)"

text \<open>Truthiness of a \<open>string | undefined | null\<close> value: defined and not empty.\<close>

definition truthy :: "jsstring option \<Rightarrow> bool" where
  "truthy v = (case v of None \<Rightarrow> False | Some s \<Rightarrow> s \<noteq> [])"

text \<open>
  The shape of \<open>if (v) ... v ...\<close>: the value where it is truthy, nothing otherwise.
\<close>

definition truthyValue :: "jsstring option \<Rightarrow> jsstring option" where
  "truthyValue v = (case v of None \<Rightarrow> None | Some s \<Rightarrow> if s = [] then None else Some s)"

section \<open>Types\<close>

record McpConfig =
  url :: "jsstring option"

record ApiConfig =
  baseUrl :: "jsstring option"

record SkillConfig =
  slug :: jsstring
  iconPath :: "jsstring option"

record SourceConfig =
  slug :: jsstring
  name :: jsstring
  type :: jsstring
  icon :: "jsstring option"
  provider :: "jsstring option"
  mcp :: "McpConfig option"
  api :: "ApiConfig option"

record Source =
  config :: SourceConfig
  workspaceId :: jsstring

section \<open>Collaborators and effects\<close>

text \<open>A value thrown by a collaborator or a platform function.\<close>

datatype js_error = JsError jsstring

text \<open>
  The privileged-process bridge \<open>window.electronAPI\<close>, the platform function \<open>btoa\<close>,
  the style accessor and the Unicode property tables behind \<open>\p{Emoji_Presentation}\<close>
  and \<open>\p{Emoji}\<close> are not part of the module: they are parameters. A rejected promise
  or a thrown exception is \<open>Inl\<close>. \<open>documentForeground\<close> is \<open>None\<close> where
  \<open>typeof document === 'undefined'\<close>, and otherwise the value that
  \<open>getPropertyValue('--foreground')\<close> yields. An environment fixes the collaborators'
  answers for the duration of one call; consecutive calls may run in different
  environments.
\<close>

record env =
  readWorkspaceImage :: "jsstring \<Rightarrow> jsstring \<Rightarrow> js_error + jsstring"
  getLogoUrl :: "jsstring \<Rightarrow> jsstring \<Rightarrow> js_error + jsstring option"
  btoa :: "jsstring \<Rightarrow> js_error + jsstring"
  documentForeground :: "jsstring option"
  Emoji_Presentation :: "nat \<Rightarrow> bool"
  Emoji :: "nat \<Rightarrow> bool"

text \<open>One invocation of an I/O collaborator, with its arguments.\<close>

datatype io_call =
  ReadWorkspaceImage jsstring jsstring
  | GetLogoUrl jsstring jsstring

text \<open>
  The module's state: the two exported maps, and, to make the effects observable, the
  collaborator invocations and the \<open>console.error\<close> lines so far (oldest first).
  In \<open>logoUrlCache\<close>, \<open>Some None\<close> is a stored \<open>null\<close>.
\<close>

record caches =
  iconCache :: "jsstring \<rightharpoonup> jsstring"
  logoUrlCache :: "jsstring \<rightharpoonup> jsstring option"
  calls :: "io_call list"
  console :: "(jsstring \<times> js_error) list"

section \<open>Unified cache and its prefixed views\<close>

definition sourceIconCache_get :: "jsstring \<Rightarrow> caches \<Rightarrow> jsstring option" where
  "sourceIconCache_get key st = iconCache st (str ''source:'' @ key)"

definition sourceIconCache_set :: "jsstring \<Rightarrow> jsstring \<Rightarrow> caches \<Rightarrow> caches" where
  "sourceIconCache_set key v st = st\<lparr>iconCache := (iconCache st)(str ''source:'' @ key \<mapsto> v)\<rparr>"

text \<open>
  \<open>clear\<close> of a view deletes every key of the unified map that starts with the view's
  prefix (deleting during the iteration of a \<open>Map\<close> visits all remaining keys).
\<close>

definition sourceIconCache_clear :: "caches \<Rightarrow> caches" where
  "sourceIconCache_clear st =
     st\<lparr>iconCache := (\<lambda>key. if startsWith key (str ''source:'') then None else iconCache st key)\<rparr>"

definition skillIconCache_get :: "jsstring \<Rightarrow> caches \<Rightarrow> jsstring option" where
  "skillIconCache_get key st = iconCache st (str ''skill:'' @ key)"

definition skillIconCache_set :: "jsstring \<Rightarrow> jsstring \<Rightarrow> caches \<Rightarrow> caches" where
  "skillIconCache_set key v st = st\<lparr>iconCache := (iconCache st)(str ''skill:'' @ key \<mapsto> v)\<rparr>"

definition skillIconCache_clear :: "caches \<Rightarrow> caches" where
  "skillIconCache_clear st =
     st\<lparr>iconCache := (\<lambda>key. if startsWith key (str ''skill:'') then None else iconCache st key)\<rparr>"

definition statusIconCache_clear :: "caches \<Rightarrow> caches" where
  "statusIconCache_clear st =
     st\<lparr>iconCache := (\<lambda>key. if startsWith key (str ''status:'') then None else iconCache st key)\<rparr>"

subsection \<open>Cache management\<close>

definition clearIconCaches :: "caches \<Rightarrow> caches" where
  "clearIconCaches st = st\<lparr>iconCache := Map.empty, logoUrlCache := Map.empty\<rparr>"

definition clearSourceIconCaches :: "caches \<Rightarrow> caches" where
  "clearSourceIconCaches st = (sourceIconCache_clear st)\<lparr>logoUrlCache := Map.empty\<rparr>"

definition clearSkillIconCaches :: "caches \<Rightarrow> caches" where
  "clearSkillIconCaches st = skillIconCache_clear st"

definition clearStatusIconCaches :: "caches \<Rightarrow> caches" where
  "clearStatusIconCaches st = statusIconCache_clear st"

text \<open>The four exported clear operations, to speak about all of them at once.\<close>

datatype clear_op = ClearIcon | ClearSource | ClearSkill | ClearStatus

fun runClear :: "clear_op \<Rightarrow> caches \<Rightarrow> caches" where
  "runClear ClearIcon st = clearIconCaches st"
| "runClear ClearSource st = clearSourceIconCaches st"
| "runClear ClearSkill st = clearSkillIconCaches st"
| "runClear ClearStatus st = clearStatusIconCaches st"

section \<open>Source icon loading\<close>

subsection \<open>Emoji detection\<close>

text \<open>
  \<open>EMOJI_REGEX\<close> carries the \<open>u\<close> flag, so it reads the string as code points: a
  high surrogate followed by a low surrogate is one code point, any other code unit
  stands for itself.
\<close>

definition isHighSurrogate :: "16 word \<Rightarrow> bool" where
  "isHighSurrogate c = (0xD800 \<le> c \<and> c \<le> 0xDBFF)"

definition isLowSurrogate :: "16 word \<Rightarrow> bool" where
  "isLowSurrogate c = (0xDC00 \<le> c \<and> c \<le> 0xDFFF)"

fun codePoints :: "jsstring \<Rightarrow> nat list" where
  "codePoints [] = []"
| "codePoints [c] = [unat c]"
| "codePoints (h # l # rest) =
     (if isHighSurrogate h \<and> isLowSurrogate l
      then (0x10000 + (unat h - 0xD800) * 0x400 + (unat l - 0xDC00)) # codePoints rest
      else unat h # codePoints (l # rest))"

text \<open>
  The pattern is \<open>^(?:EP|E VS16)(?:ZWJ(?:EP|E VS16))*$\<close> with the \<open>u\<close> flag, where EP is
  \<open>\p{Emoji_Presentation}\<close>, E is \<open>\p{Emoji}\<close>, VS16 is U+FE0F and ZWJ is U+200D:
  \<open>emojiSequence\<close> matches one element and then \<open>emojiJoined\<close>, which matches
  the starred group up to the end of the input. Both alternatives of an element are
  tried, as the backtracking matcher does.
\<close>

fun emojiSequence :: "(nat \<Rightarrow> bool) \<Rightarrow> (nat \<Rightarrow> bool) \<Rightarrow> nat list \<Rightarrow> bool"
  and emojiJoined :: "(nat \<Rightarrow> bool) \<Rightarrow> (nat \<Rightarrow> bool) \<Rightarrow> nat list \<Rightarrow> bool" where
  "emojiSequence ep em [] = False"
| "emojiSequence ep em (c # rest) =
     (if ep c \<and> emojiJoined ep em rest then True
      else (case rest of
              [] \<Rightarrow> False
            | v # rest' \<Rightarrow> em c \<and> v = 0xFE0F \<and> emojiJoined ep em rest'))"
| "emojiJoined ep em [] = True"
| "emojiJoined ep em (z # rest) = (z = 0x200D \<and> emojiSequence ep em rest)"

definition EMOJI_REGEX_test :: "env \<Rightarrow> jsstring \<Rightarrow> bool" where
  "EMOJI_REGEX_test e s = emojiSequence (Emoji_Presentation e) (Emoji e) (codePoints s)"

definition isEmoji :: "env \<Rightarrow> jsstring \<Rightarrow> bool" where
  "isEmoji e s = (length s \<le> 8 \<and> EMOJI_REGEX_test e s)"

definition EMOJI_ICON_PREFIX :: jsstring where
  "EMOJI_ICON_PREFIX = str ''emoji:''"

section \<open>SVG theming\<close>

text \<open>The characters of \<open>\s\<close>, which are also those that \<open>trim\<close> strips.\<close>

definition isWhiteSpace :: "16 word \<Rightarrow> bool" where
  "isWhiteSpace c =
     (c = 0x09 \<or> c = 0x0A \<or> c = 0x0B \<or> c = 0x0C \<or> c = 0x0D \<or> c = 0x20 \<or> c = 0xA0
      \<or> c = 0x1680 \<or> (0x2000 \<le> c \<and> c \<le> 0x200A) \<or> c = 0x2028 \<or> c = 0x2029
      \<or> c = 0x202F \<or> c = 0x205F \<or> c = 0x3000 \<or> c = 0xFEFF)"

definition trim :: "jsstring \<Rightarrow> jsstring" where
  "trim s = rev (dropWhile isWhiteSpace (rev (dropWhile isWhiteSpace s)))"

definition getForegroundColor :: "env \<Rightarrow> jsstring" where
  "getForegroundColor e =
     (case documentForeground e of
        None \<Rightarrow> str ''#e3e2e5''
      | Some v \<Rightarrow>
          (let computedColor = trim v
           in if computedColor \<noteq> [] then computedColor else str ''#e3e2e5''))"

text \<open>
  Matching under the \<open>i\<close> flag (without \<open>u\<close>) compares canonicalised code units; for
  the ASCII patterns of this module only the ASCII letters have two spellings.
\<close>

definition asciiUpper :: "16 word \<Rightarrow> 16 word" where
  "asciiUpper c = (if 0x61 \<le> c \<and> c \<le> 0x7A then c - 0x20 else c)"

definition ciPrefix :: "jsstring \<Rightarrow> jsstring \<Rightarrow> bool" where
  "ciPrefix pat s =
     (if length pat \<le> length s
      then map asciiUpper (take (length pat) s) = map asciiUpper pat
      else False)"

text \<open>
  \<open>String.prototype.replace\<close> with a string as replacement expands \<open>$$\<close>, \<open>$&\<close>,
  \<open>$`\<close> and \<open>$'\<close> in it; with no capture group in the pattern every other \<open>$\<close>
  stands for itself.
\<close>

fun getSubstitution :: "jsstring \<Rightarrow> jsstring \<Rightarrow> jsstring \<Rightarrow> jsstring \<Rightarrow> jsstring" where
  "getSubstitution matched leftCtx rightCtx [] = []"
| "getSubstitution matched leftCtx rightCtx [c] = [c]"
| "getSubstitution matched leftCtx rightCtx (c # d # t) =
     (if c = 0x24 \<and> d = 0x24 then 0x24 # getSubstitution matched leftCtx rightCtx t
      else if c = 0x24 \<and> d = 0x26 then matched @ getSubstitution matched leftCtx rightCtx t
      else if c = 0x24 \<and> d = 0x60 then leftCtx @ getSubstitution matched leftCtx rightCtx t
      else if c = 0x24 \<and> d = 0x27 then rightCtx @ getSubstitution matched leftCtx rightCtx t
      else c # getSubstitution matched leftCtx rightCtx (d # t))"

text \<open>
  \<open>processed.replace(/currentColor/gi, color)\<close>: the matches are found from left to
  right and do not overlap; \<open>leftCtx\<close> is the part of the input to the left of the position.
\<close>

function replaceCurrentColor :: "jsstring \<Rightarrow> jsstring \<Rightarrow> jsstring \<Rightarrow> jsstring" where
  "replaceCurrentColor color leftCtx [] = []"
| "replaceCurrentColor color leftCtx (c # cs) =
     (if ciPrefix (str ''currentColor'') (c # cs)
      then getSubstitution (take 12 (c # cs)) leftCtx (drop 12 (c # cs)) color
           @ replaceCurrentColor color (leftCtx @ take 12 (c # cs)) (drop 12 (c # cs))
      else c # replaceCurrentColor color (leftCtx @ [c]) cs)"
  by pat_completeness auto
termination
  by (relation "measure (\<lambda>(color, leftCtx, s). length s)") auto

text \<open>
  The first match of \<open>/<svg([^>]*)>/i\<close>: the text to its left, the tag name as written,
  the captured attributes, and the text to the right of the closing \<open>>\<close>.
\<close>

fun svgRootMatch :: "jsstring \<Rightarrow> jsstring \<Rightarrow> (jsstring \<times> jsstring \<times> jsstring \<times> jsstring) option" where
  "svgRootMatch leftCtx [] = None"
| "svgRootMatch leftCtx (c # cs) =
     (if ciPrefix (str ''<svg'') (c # cs) \<and> 0x3E \<in> set (drop 4 (c # cs))
      then Some (leftCtx, take 4 (c # cs),
                 takeWhile (\<lambda>x. x \<noteq> 0x3E) (drop 4 (c # cs)),
                 tl (dropWhile (\<lambda>x. x \<noteq> 0x3E) (drop 4 (c # cs))))
      else svgRootMatch (leftCtx @ [c]) cs)"

text \<open>\<open>/\bfill\s*=/i.test(attrs)\<close>; \<open>prevWord\<close> tells whether the previous character is a word character.\<close>

definition isWordChar :: "16 word \<Rightarrow> bool" where
  "isWordChar c =
     ((0x30 \<le> c \<and> c \<le> 0x39) \<or> (0x41 \<le> c \<and> c \<le> 0x5A) \<or> c = 0x5F \<or> (0x61 \<le> c \<and> c \<le> 0x7A))"

definition fillHere :: "jsstring \<Rightarrow> bool" where
  "fillHere s =
     (if ciPrefix (str ''fill'') s
      then (case dropWhile isWhiteSpace (drop 4 s) of [] \<Rightarrow> False | x # _ \<Rightarrow> x = 0x3D)
      else False)"

fun fillScan :: "bool \<Rightarrow> jsstring \<Rightarrow> bool" where
  "fillScan prevWord [] = False"
| "fillScan prevWord (c # cs) =
     (if \<not> prevWord \<and> fillHere (c # cs) then True else fillScan (isWordChar c) cs)"

definition hasFillAttribute :: "jsstring \<Rightarrow> bool" where
  "hasFillAttribute attrs = fillScan False attrs"

definition themeSvgContent :: "env \<Rightarrow> jsstring \<Rightarrow> jsstring option \<Rightarrow> jsstring" where
  \<open>themeSvgContent e svgContent foregroundColor =
     (let color = (case foregroundColor of Some c \<Rightarrow> c | None \<Rightarrow> getForegroundColor e);
          processed = replaceCurrentColor color [] svgContent
      in case svgRootMatch [] processed of
           None \<Rightarrow> processed
         | Some (leftCtx, tag, attrs, rightCtx) \<Rightarrow>
             (if hasFillAttribute attrs
              then leftCtx @ (tag @ attrs @ str ''>'') @ rightCtx
              else leftCtx @ (str ''<svg'' @ attrs @ str '' fill="'' @ color @ str ''">'') @ rightCtx))\<close>

definition svgToThemedDataUrl :: "env \<Rightarrow> jsstring \<Rightarrow> jsstring option \<Rightarrow> js_error + jsstring" where
  "svgToThemedDataUrl e svgContent foregroundColor =
     (let themedSvg = themeSvgContent e svgContent foregroundColor
      in case btoa e themedSvg of
           Inl err \<Rightarrow> Inl err
         | Inr b64 \<Rightarrow> Inr (str ''data:image/svg+xml;base64,'' @ b64))"

text \<open>The invocations of the favicon collaborator among the calls so far.\<close>

fun isFaviconCall :: "io_call \<Rightarrow> bool" where
  "isFaviconCall (GetLogoUrl serviceUrl prov) = True"
| "isFaviconCall (ReadWorkspaceImage wsId path) = False"

definition faviconCalls :: "caches \<Rightarrow> io_call list" where
  "faviconCalls st = filter isFaviconCall (calls st)"

section \<open>Loading\<close>

text \<open>
  \<open>loadWorkspaceIcon\<close>: one file read through the bridge. The \<open>try\<close> block covers
  the read and the theming, so a rejected read and a throwing \<open>btoa\<close> both end in
  \<open>null\<close>. \<open>loadWorkspaceIcon_value\<close> is the value the call resolves to;
  \<open>loadWorkspaceIcon\<close> adds the effect, the invocation of the collaborator.
\<close>

definition loadWorkspaceIcon_value :: "env \<Rightarrow> jsstring \<Rightarrow> jsstring \<Rightarrow> jsstring option" where
  "loadWorkspaceIcon_value e wsId relativePath =
     (case readWorkspaceImage e wsId relativePath of
        Inl err \<Rightarrow> None
      | Inr result \<Rightarrow>
          (if endsWith relativePath (str ''.svg'')
           then (case svgToThemedDataUrl e result None of
                   Inl err \<Rightarrow> None
                 | Inr dataUrl \<Rightarrow> Some dataUrl)
           else Some result))"

definition loadWorkspaceIcon :: "env \<Rightarrow> jsstring \<Rightarrow> jsstring \<Rightarrow> caches \<Rightarrow> jsstring option \<times> caches" where
  "loadWorkspaceIcon e wsId relativePath st =
     (loadWorkspaceIcon_value e wsId relativePath,
      st\<lparr>calls := calls st @ [ReadWorkspaceImage wsId relativePath]\<rparr>)"

definition mcpUrl :: "SourceConfig \<Rightarrow> jsstring option" where
  "mcpUrl cfg = (case mcp cfg of None \<Rightarrow> None | Some m \<Rightarrow> url m)"

definition apiBaseUrl :: "SourceConfig \<Rightarrow> jsstring option" where
  "apiBaseUrl cfg = (case api cfg of None \<Rightarrow> None | Some a \<Rightarrow> baseUrl a)"

definition deriveServiceUrl :: "SourceConfig \<Rightarrow> jsstring option" where
  "deriveServiceUrl cfg =
     (if type cfg = str ''mcp'' \<and> truthy (mcpUrl cfg) then mcpUrl cfg
      else if type cfg = str ''api'' \<and> truthy (apiBaseUrl cfg) then apiBaseUrl cfg
      else None)"

definition sourceCacheKey :: "Source \<Rightarrow> jsstring" where
  "sourceCacheKey source = workspaceId source @ str '':'' @ SourceConfig.slug (config source)"

text \<open>
  \<open>loadSourceIcon\<close>, in the two stretches its body consists of. The first one is the
  cache lookup and the priorities 1 to 4 (emoji, explicit local path, \<open>icon.svg\<close>,
  \<open>icon.png\<close>); its result \<open>Some v\<close> is a \<open>return v\<close>, and \<open>None\<close> means that
  control reaches priority 5.
\<close>

definition loadSourceIcon_local :: "env \<Rightarrow> Source \<Rightarrow> caches \<Rightarrow> jsstring option \<times> caches" where
  "loadSourceIcon_local e source st =
     (let cfg = config source; wsId = workspaceId source;
          cacheKey = sourceCacheKey source
      in case truthyValue (sourceIconCache_get cacheKey st) of
           Some cached \<Rightarrow> (Some cached, st)
         | None \<Rightarrow>
       (case (case truthyValue (icon cfg) of
                None \<Rightarrow> None
              | Some i \<Rightarrow> if isEmoji e i then Some (EMOJI_ICON_PREFIX @ i) else None) of
          Some emojiMarker \<Rightarrow> (Some emojiMarker, sourceIconCache_set cacheKey emojiMarker st)
        | None \<Rightarrow>
       (case (case icon cfg of
                None \<Rightarrow> (None, st)
              | Some i \<Rightarrow>
                  if startsWith i (str ''./'')
                  then (let iconFilename = drop 2 i;
                            relativePath = str ''sources/'' @ SourceConfig.slug cfg @ str ''/'' @ iconFilename
                        in loadWorkspaceIcon e wsId relativePath st)
                  else (None, st)) of
          (loaded, st1) \<Rightarrow>
       (case truthyValue loaded of
          Some l \<Rightarrow> (Some l, sourceIconCache_set cacheKey l st1)
        | None \<Rightarrow>
       (case loadWorkspaceIcon e wsId
               (str ''sources/'' @ SourceConfig.slug cfg @ str ''/icon.svg'') st1 of
          (localIconSvg, st2) \<Rightarrow>
       (case truthyValue localIconSvg of
          Some l \<Rightarrow> (Some l, sourceIconCache_set cacheKey l st2)
        | None \<Rightarrow>
       (case loadWorkspaceIcon e wsId
               (str ''sources/'' @ SourceConfig.slug cfg @ str ''/icon.png'') st2 of
          (localIconPng, st3) \<Rightarrow>
       (case truthyValue localIconPng of
          Some l \<Rightarrow> (Some l, sourceIconCache_set cacheKey l st3)
        | None \<Rightarrow> (None, st3)))))))))"

text \<open>
  Priority 5, the favicon of the service URL. \<open>config.slug ?? config.provider\<close> is
  \<open>config.slug\<close>, since \<open>slug\<close> is a string and never nullish. The \<open>catch\<close> logs to
  \<open>console.error\<close>, stores \<open>null\<close> and returns \<open>null\<close>.
\<close>

definition loadSourceIcon_favicon :: "env \<Rightarrow> Source \<Rightarrow> caches \<Rightarrow> jsstring option \<times> caches" where
  "loadSourceIcon_favicon e source st =
     (let cfg = config source; cacheKey = sourceCacheKey source
      in case truthyValue (deriveServiceUrl cfg) of
           None \<Rightarrow> (None, st)
         | Some serviceUrl \<Rightarrow>
       (let provider = SourceConfig.slug cfg;
            logoCacheKey = serviceUrl @ str '':'' @ provider
        in case logoUrlCache st logoCacheKey of
             Some cachedLogoUrl \<Rightarrow>
               (case truthyValue cachedLogoUrl of
                  Some u \<Rightarrow> (cachedLogoUrl, sourceIconCache_set cacheKey u st)
                | None \<Rightarrow> (cachedLogoUrl, st))
           | None \<Rightarrow>
       (let st1 = st\<lparr>calls := calls st @ [GetLogoUrl serviceUrl provider]\<rparr>
        in case getLogoUrl e serviceUrl provider of
             Inr logoUrl \<Rightarrow>
               (let st2 = st1\<lparr>logoUrlCache := (logoUrlCache st1)(logoCacheKey \<mapsto> logoUrl)\<rparr>
                in case truthyValue logoUrl of
                     Some u \<Rightarrow> (logoUrl, sourceIconCache_set cacheKey u st2)
                   | None \<Rightarrow> (logoUrl, st2))
           | Inl err \<Rightarrow>
               (None, st1\<lparr>console := console st1 @ [(str ''[IconCache] Failed to resolve logo URL:'', err)],
                          logoUrlCache := (logoUrlCache st1)(logoCacheKey \<mapsto> None)\<rparr>))))"

definition loadSourceIcon :: "env \<Rightarrow> Source \<Rightarrow> caches \<Rightarrow> jsstring option \<times> caches" where
  "loadSourceIcon e source st =
     (case loadSourceIcon_local e source st of
        (Some v, st1) \<Rightarrow> (Some v, st1)
      | (None, st1) \<Rightarrow> loadSourceIcon_favicon e source st1)"

text \<open>
  The same body read as a chain of tiers, each of the shape
  \<open>if (x) { sourceIconCache.set(cacheKey, x); return x }\<close>: a tier that yields
  \<open>Some v\<close> returns \<open>v\<close>, and after \<open>None\<close> the next tier runs in the state the
  tier left. Lemma \<open>loadSourceIcon_local_tiers\<close> below shows that the chain is
  \<open>loadSourceIcon_local\<close>.
\<close>

type_synonym resolution = "caches \<Rightarrow> jsstring option \<times> caches"

definition orElse :: "resolution \<Rightarrow> resolution \<Rightarrow> resolution" where
  "orElse f g st = (case f st of (Some v, st1) \<Rightarrow> (Some v, st1) | (None, st1) \<Rightarrow> g st1)"

definition cacheAndReturn :: "jsstring \<Rightarrow> jsstring option \<Rightarrow> resolution" where
  "cacheAndReturn cacheKey x st =
     (case truthyValue x of
        Some v \<Rightarrow> (Some v, sourceIconCache_set cacheKey v st)
      | None \<Rightarrow> (None, st))"

definition cachedTier :: "Source \<Rightarrow> resolution" where
  "cachedTier source st = (truthyValue (sourceIconCache_get (sourceCacheKey source) st), st)"

definition emojiTier :: "env \<Rightarrow> Source \<Rightarrow> resolution" where
  "emojiTier e source st =
     cacheAndReturn (sourceCacheKey source)
       (case truthyValue (icon (config source)) of
          None \<Rightarrow> None
        | Some i \<Rightarrow> if isEmoji e i then Some (EMOJI_ICON_PREFIX @ i) else None) st"

definition fileTier :: "env \<Rightarrow> Source \<Rightarrow> jsstring \<Rightarrow> resolution" where
  "fileTier e source relativePath st =
     (case loadWorkspaceIcon e (workspaceId source) relativePath st of
        (loaded, st1) \<Rightarrow> cacheAndReturn (sourceCacheKey source) loaded st1)"

definition explicitPath :: "Source \<Rightarrow> jsstring option" where
  "explicitPath source =
     (case icon (config source) of
        None \<Rightarrow> None
      | Some i \<Rightarrow>
          if startsWith i (str ''./'')
          then Some (str ''sources/'' @ SourceConfig.slug (config source) @ str ''/'' @ drop 2 i)
          else None)"

definition explicitTier :: "env \<Rightarrow> Source \<Rightarrow> resolution" where
  "explicitTier e source st =
     (case explicitPath source of
        None \<Rightarrow> (None, st)
      | Some relativePath \<Rightarrow> fileTier e source relativePath st)"

definition iconSvgPath :: "Source \<Rightarrow> jsstring" where
  "iconSvgPath source = str ''sources/'' @ SourceConfig.slug (config source) @ str ''/icon.svg''"

definition iconPngPath :: "Source \<Rightarrow> jsstring" where
  "iconPngPath source = str ''sources/'' @ SourceConfig.slug (config source) @ str ''/icon.png''"

text \<open>The key of the logo-URL cache that priority 5 uses for a service URL.\<close>

definition logoCacheKey :: "jsstring \<Rightarrow> Source \<Rightarrow> jsstring" where
  "logoCacheKey serviceUrl source = serviceUrl @ str '':'' @ SourceConfig.slug (config source)"

definition getSourceIconSync :: "jsstring \<Rightarrow> jsstring \<Rightarrow> caches \<Rightarrow> jsstring option" where
  "getSourceIconSync wsId sl st = sourceIconCache_get (wsId @ str '':'' @ sl) st"

subsection \<open>Skill icons\<close>

text \<open>
  \<open>iconPath.match(/skills\/([^/]+)\/(.+)$/)\<close>: the leftmost position where
  \<open>skills/\<close> is followed by a non-empty run without \<open>/\<close>, a \<open>/\<close>, and a non-empty
  rest of the input without line terminators (\<open>.\<close> does not match them). The result
  holds the two groups.
\<close>

definition isLineTerminator :: "16 word \<Rightarrow> bool" where
  "isLineTerminator c = (c = 0x0A \<or> c = 0x0D \<or> c = 0x2028 \<or> c = 0x2029)"

definition skillsMatchAt :: "jsstring \<Rightarrow> (jsstring \<times> jsstring) option" where
  "skillsMatchAt s =
     (if startsWith s (str ''skills/'')
      then (let rest = drop 7 s; g1 = takeWhile (\<lambda>c. c \<noteq> 0x2F) rest
            in case dropWhile (\<lambda>c. c \<noteq> 0x2F) rest of
                 [] \<Rightarrow> None
               | sl # g2 \<Rightarrow>
                   if g1 \<noteq> [] \<and> g2 \<noteq> [] \<and> list_all (\<lambda>c. \<not> isLineTerminator c) g2
                   then Some (g1, g2) else None)
      else None)"

fun skillsMatch :: "jsstring \<Rightarrow> (jsstring \<times> jsstring) option" where
  "skillsMatch [] = None"
| "skillsMatch (c # cs) =
     (case skillsMatchAt (c # cs) of Some g \<Rightarrow> Some g | None \<Rightarrow> skillsMatch cs)"

definition loadSkillIcon :: "env \<Rightarrow> SkillConfig \<Rightarrow> jsstring \<Rightarrow> caches \<Rightarrow> jsstring option \<times> caches" where
  "loadSkillIcon e skill wsId st =
     (case truthyValue (iconPath skill) of
        None \<Rightarrow> (None, st)
      | Some path \<Rightarrow>
     (let cacheKey = wsId @ str '':'' @ SkillConfig.slug skill
      in case truthyValue (skillIconCache_get cacheKey st) of
           Some cached \<Rightarrow> (Some cached, st)
         | None \<Rightarrow>
       (case skillsMatch path of
          None \<Rightarrow> (None, st)
        | Some (g1, g2) \<Rightarrow>
       (let relativePath = str ''skills/'' @ g1 @ str ''/'' @ g2;
            st1 = st\<lparr>calls := calls st @ [ReadWorkspaceImage wsId relativePath]\<rparr>;
            failed = (\<lambda>err. (None, st1\<lparr>console := console st1 @
                        [(str ''[IconCache] Failed to load skill icon '' @ relativePath @ str '':'', err)]\<rparr>))
        in case readWorkspaceImage e wsId relativePath of
             Inl err \<Rightarrow> failed err
           | Inr result \<Rightarrow>
               (case (if endsWith relativePath (str ''.svg'')
                      then svgToThemedDataUrl e result None else Inr result) of
                  Inl err \<Rightarrow> failed err
                | Inr u \<Rightarrow> (Some u, skillIconCache_set cacheKey u st1))))))"

definition getSkillIconSync :: "jsstring \<Rightarrow> jsstring \<Rightarrow> caches \<Rightarrow> jsstring option" where
  "getSkillIconSync wsId sl st = skillIconCache_get (wsId @ str '':'' @ sl) st"

text \<open>The cache key of a skill, and the relative path built from the two groups of a match.\<close>

definition skillCacheKey :: "SkillConfig \<Rightarrow> jsstring \<Rightarrow> jsstring" where
  "skillCacheKey skill wsId = wsId @ str '':'' @ SkillConfig.slug skill"

definition skillRelativePath :: "jsstring \<times> jsstring \<Rightarrow> jsstring" where
  "skillRelativePath g = str ''skills/'' @ fst g @ str ''/'' @ snd g"

section \<open>Example inputs\<close>

text \<open>
  A workspace without icon files, a favicon service that finds nothing, and the entries
  of the Unicode tables that the examples use: U+1F525 (fire), U+1F44D (thumbs up), the
  skin-tone modifiers U+1F3FB to U+1F3FF and the regional indicators U+1F1E6 to U+1F1FF
  all have both properties.
\<close>

definition emojiTable :: "nat \<Rightarrow> bool" where
  "emojiTable c =
     (c = 0x1F525 \<or> c = 0x1F44D \<or> (0x1F3FB \<le> c \<and> c \<le> 0x1F3FF) \<or> (0x1F1E6 \<le> c \<and> c \<le> 0x1F1FF))"

definition bareEnv :: env where
  "bareEnv =
     \<lparr>readWorkspaceImage = (\<lambda>wsId path. Inl (JsError (str ''ENOENT''))),
      getLogoUrl = (\<lambda>serviceUrl prov. Inr None),
      btoa = (\<lambda>s. Inl (JsError (str ''InvalidCharacterError''))),
      documentForeground = None,
      Emoji_Presentation = emojiTable,
      Emoji = emojiTable\<rparr>"

text \<open>The same workspace with a favicon service that answers with one URL.\<close>

definition logoEnv :: env where
  "logoEnv = bareEnv\<lparr>getLogoUrl := (\<lambda>serviceUrl prov. Inr (Some (str ''https://logo'')))\<rparr>"

text \<open>The same workspace with a favicon service that fails.\<close>

definition offlineEnv :: env where
  "offlineEnv = bareEnv\<lparr>getLogoUrl := (\<lambda>serviceUrl prov. Inl (JsError (str ''ETIMEDOUT'')))\<rparr>"

text \<open>A workspace that holds the icon of one skill.\<close>

definition skillEnv :: env where
  "skillEnv =
     bareEnv\<lparr>readWorkspaceImage :=
       (\<lambda>wsId path. if path = str ''skills/commit/icon.png''
                     then Inr (str ''data:image/png;base64,AA=='')
                     else Inl (JsError (str ''ENOENT'')))\<rparr>"

definition commitSkill :: "jsstring \<Rightarrow> SkillConfig" where
  "commitSkill path = \<lparr>SkillConfig.slug = str ''commit'', iconPath = Some path\<rparr>"

text \<open>
  The tables with the keycap bases as Unicode has them: \<open>#\<close>, \<open>*\<close> and the digits
  have the property Emoji and not the property Emoji_Presentation.
\<close>

definition keycapEnv :: env where
  "keycapEnv =
     bareEnv\<lparr>Emoji := (\<lambda>c. emojiTable c \<or> c = 0x23 \<or> c = 0x2A \<or> (0x30 \<le> c \<and> c \<le> 0x39))\<rparr>"

definition emptyCaches :: caches where
  "emptyCaches = \<lparr>iconCache = Map.empty, logoUrlCache = Map.empty, calls = [], console = []\<rparr>"

text \<open>The strings of the examples.\<close>

definition fireEmoji :: jsstring where
  "fireEmoji = [0xD83D, 0xDD25]"

definition flagUS :: jsstring where
  "flagUS = [0xD83C, 0xDDFA, 0xD83C, 0xDDF8]"

definition thumbsUpMediumSkin :: jsstring where
  "thumbsUpMediumSkin = [0xD83D, 0xDC4D, 0xD83C, 0xDFFD]"

definition svgCurrentColorPath :: jsstring where
  \<open>svgCurrentColorPath = str ''<svg><path fill="currentColor"/></svg>''\<close>

definition svgStrokeRoot :: jsstring where
  \<open>svgStrokeRoot = str ''<svg fill="none" stroke="currentColor"></svg>''\<close>

definition svgQuotedGt :: jsstring where
  \<open>svgQuotedGt = str ''<svg data-x="a>b" fill="none"></svg>''\<close>

text \<open>
  Digit one and digit two, each with U+FE0F, joined by U+200D: five code units, two
  grapheme clusters, and no emoji.
\<close>

definition digitsJoined :: jsstring where
  "digitsJoined = [0x31, 0xFE0F, 0x200D, 0x32, 0xFE0F]"

definition localSource :: "jsstring option \<Rightarrow> Source" where
  "localSource i =
     \<lparr>config = \<lparr>slug = str ''x'', name = str ''X'', type = str ''local'', icon = i,
                 provider = None, mcp = None, api = None\<rparr>,
      workspaceId = str ''ws''\<rparr>"

definition linearSource :: Source where
  "linearSource =
     \<lparr>config = \<lparr>slug = str ''linear'', name = str ''Linear'', type = str ''mcp'', icon = None,
                 provider = None, mcp = Some \<lparr>url = Some (str ''https://api.linear.app'')\<rparr>,
                 api = None\<rparr>,
      workspaceId = str ''ws''\<rparr>"

text \<open>A state with one source icon, one skill icon and one resolved logo URL.\<close>

definition populatedCaches :: caches where
  "populatedCaches =
     \<lparr>iconCache = [str ''source:ws:linear'' \<mapsto> str ''https://logo'',
                   str ''skill:ws:commit'' \<mapsto> str ''data:image/png;base64,AA==''],
      logoUrlCache = [str ''https://api.linear.app:linear'' \<mapsto> Some (str ''https://logo'')],
      calls = [], console = []\<rparr>"

text \<open>The Linear source with a remote URL as its icon.\<close>

definition remoteIconSource :: Source where
  "remoteIconSource =
     linearSource\<lparr>config := (config linearSource)\<lparr>icon := Some (str ''https://cdn.linear.app/icon.png'')\<rparr>\<rparr>"

text \<open>A state in which the icon of the skill \<open>commit\<close> is cached.\<close>

definition cachedSkillCaches :: caches where
  "cachedSkillCaches =
     emptyCaches\<lparr>iconCache := [str ''skill:ws:commit'' \<mapsto> str ''data:image/png;base64,AA=='']\<rparr>"

section \<open>Properties\<close>

subsection \<open>Key prefixes\<close>

lemma startsWith_both:
  assumes "startsWith k p" and "startsWith k q" and "length q \<le> length p"
  shows "startsWith p q"
proof -
  have "take (length q) p = take (length q) (take (length p) k)"
    using assms(1) by (simp add: startsWith_def)
  also have "\<dots> = take (length q) k"
    using assms(3) by (simp add: min_def)
  also have "\<dots> = q"
    using assms(2) by (simp add: startsWith_def)
  finally show ?thesis
    by (simp add: startsWith_def)
qed

lemma source_prefix_not_skill:
  assumes "startsWith k (str ''source:'')"
  shows "\<not> startsWith k (str ''skill:'')"
proof
  assume "startsWith k (str ''skill:'')"
  with assms have "startsWith (str ''source:'') (str ''skill:'')"
    by (rule startsWith_both) (simp add: str_def)
  then show False
    by (simp add: startsWith_def str_def)
qed

subsection \<open>Clearing the caches\<close>

text \<open>
  C5, as stated, fails in its second half: \<open>clearSourceIconCaches\<close> is a second clear
  operation that removes entries from both maps. In the populated state it deletes the
  source icon of the icon cache and the entry of the logo-URL cache.
\<close>

theorem clearSourceIconCaches_removes_from_both:
  "iconCache populatedCaches (str ''source:ws:linear'') = Some (str ''https://logo'')
   \<and> iconCache (clearSourceIconCaches populatedCaches) (str ''source:ws:linear'') = None
   \<and> logoUrlCache populatedCaches (str ''https://api.linear.app:linear'') = Some (Some (str ''https://logo''))
   \<and> logoUrlCache (clearSourceIconCaches populatedCaches) (str ''https://api.linear.app:linear'') = None"
  by (simp add: populatedCaches_def clearSourceIconCaches_def sourceIconCache_clear_def
      startsWith_def str_def)

text \<open>
  C5 (amended): an entry under the \<open>source:\<close> prefix is unchanged by
  \<open>clearSkillIconCaches\<close>, and an entry under any other prefix is unchanged by
  \<open>clearSourceIconCaches\<close>. \<open>clearIconCaches\<close> empties the icon cache and the
  logo-URL cache, and it is the only one of the four clear operations that leaves both
  maps empty whatever the state: \<open>clearSourceIconCaches\<close> also empties the logo-URL
  cache but deletes only the \<open>source:\<close> keys of the icon cache, and
  \<open>clearSkillIconCaches\<close> and \<open>clearStatusIconCaches\<close> do not touch the
  logo-URL cache.
\<close>

theorem clear_cache_isolation:
  "(if startsWith k (str ''source:'')
    then iconCache (clearSkillIconCaches st) k = iconCache st k
         \<and> iconCache (clearSourceIconCaches st) k = None
    else iconCache (clearSourceIconCaches st) k = iconCache st k)
   \<and> iconCache (clearIconCaches st) = Map.empty
   \<and> logoUrlCache (clearIconCaches st) = Map.empty
   \<and> logoUrlCache (clearSourceIconCaches st) = Map.empty
   \<and> logoUrlCache (clearSkillIconCaches st) = logoUrlCache st
   \<and> logoUrlCache (clearStatusIconCaches st) = logoUrlCache st
   \<and> ((\<forall>s. iconCache (runClear opn s) = Map.empty \<and> logoUrlCache (runClear opn s) = Map.empty)
        = (opn = ClearIcon))"
proof -
  have a: "iconCache (clearSkillIconCaches st) k = iconCache st k
           \<and> iconCache (clearSourceIconCaches st) k = None"
    if "startsWith k (str ''source:'')"
    using source_prefix_not_skill [OF that] that
    by (simp add: clearSkillIconCaches_def skillIconCache_clear_def
        clearSourceIconCaches_def sourceIconCache_clear_def)
  have b: "iconCache (clearSourceIconCaches st) k = iconCache st k"
    if "\<not> startsWith k (str ''source:'')"
    using that by (simp add: clearSourceIconCaches_def sourceIconCache_clear_def)
  have c: "iconCache (clearIconCaches st) = Map.empty"
    "logoUrlCache (clearIconCaches st) = Map.empty"
    "logoUrlCache (clearSourceIconCaches st) = Map.empty"
    "logoUrlCache (clearSkillIconCaches st) = logoUrlCache st"
    "logoUrlCache (clearStatusIconCaches st) = logoUrlCache st"
    by (simp_all add: clearIconCaches_def clearSourceIconCaches_def sourceIconCache_clear_def
        clearSkillIconCaches_def skillIconCache_clear_def clearStatusIconCaches_def
        statusIconCache_clear_def)
  have keep: "logoUrlCache (runClear opn populatedCaches) \<noteq> Map.empty"
    if "opn = ClearSkill \<or> opn = ClearStatus"
    using that
    by (auto simp: clearSkillIconCaches_def skillIconCache_clear_def clearStatusIconCaches_def
        statusIconCache_clear_def populatedCaches_def)
  have keep2: "iconCache (runClear ClearSource populatedCaches) (str ''skill:ws:commit'') \<noteq> None"
    by (simp add: clearSourceIconCaches_def sourceIconCache_clear_def populatedCaches_def
        startsWith_def str_def)
  have d: "(\<forall>s. iconCache (runClear opn s) = Map.empty \<and> logoUrlCache (runClear opn s) = Map.empty)
        = (opn = ClearIcon)"
  proof (cases opn)
    case ClearIcon
    then show ?thesis by (simp add: clearIconCaches_def)
  next
    case ClearSource
    with keep2 show ?thesis by (metis clear_op.distinct(1))
  next
    case ClearSkill
    with keep show ?thesis by (metis clear_op.distinct(3))
  next
    case ClearStatus
    with keep show ?thesis by (metis clear_op.distinct(5))
  qed
  from a b c d show ?thesis by simp
qed

theorem clear_cache_isolation_witness:
  "iconCache (clearSkillIconCaches populatedCaches) (str ''source:ws:linear'') = Some (str ''https://logo'')
   \<and> iconCache (clearSourceIconCaches populatedCaches) (str ''skill:ws:commit'')
       = Some (str ''data:image/png;base64,AA=='')"
  using clear_cache_isolation [of "str ''source:ws:linear''" populatedCaches]
    clear_cache_isolation [of "str ''skill:ws:commit''" populatedCaches]
  by (simp add: populatedCaches_def startsWith_def str_def)

subsection \<open>SVG theming\<close>

text \<open>
  C3, as stated, fails: on the example the root tag has no fill attribute, so the themer
  does inject one, and the result is not the markup that the claim gives.
\<close>

theorem themeSvgContent_example_not_as_claimed:
  \<open>themeSvgContent bareEnv (str ''<svg><path fill="currentColor"/></svg>'') (Some (str ''#ff0000''))
     \<noteq> str ''<svg><path fill="#ff0000"/></svg>''\<close>
  by code_simp

text \<open>
  C3 (amended): \<open>themeSvgContent\<close> applied to
  \<open><svg><path fill="currentColor"/></svg>\<close> with the color \<open>#ff0000\<close> yields
  \<open><svg fill="#ff0000"><path fill="#ff0000"/></svg>\<close>: the occurrence of
  \<open>currentColor\<close> is substituted, and the root tag, which has no fill attribute of its
  own, gains the injected one.
\<close>

theorem themeSvgContent_example_injects_root_fill:
  \<open>themeSvgContent e svgCurrentColorPath (Some (str ''#ff0000''))
     = str ''<svg fill="#ff0000"><path fill="#ff0000"/></svg>''\<close>
  by code_simp

lemma split_at_gt:
  assumes "(0x3E::16 word) \<in> set xs"
  shows "takeWhile (\<lambda>x. x \<noteq> 0x3E) xs @ [0x3E] @ tl (dropWhile (\<lambda>x. x \<noteq> 0x3E) xs) = xs"
proof -
  let ?d = "dropWhile (\<lambda>x. x \<noteq> (0x3E::16 word)) xs"
  from assms have ne: "?d \<noteq> []"
    by (auto simp: dropWhile_eq_Nil_conv)
  then have "hd ?d = 0x3E"
    using hd_dropWhile [of "\<lambda>x. x \<noteq> (0x3E::16 word)" xs] by simp
  with ne have "?d = 0x3E # tl ?d"
    by (cases ?d) simp_all
  then have "takeWhile (\<lambda>x. x \<noteq> 0x3E) xs @ [0x3E] @ tl ?d = takeWhile (\<lambda>x. x \<noteq> 0x3E) xs @ ?d"
    by simp
  then show ?thesis
    by simp
qed

lemma svgRootMatch_decomposes:
  "svgRootMatch l s = Some (l', tag, attrs, r) \<Longrightarrow> l @ s = l' @ tag @ attrs @ str ''>'' @ r"
proof (induction s arbitrary: l)
  case Nil
  then show ?case by simp
next
  case (Cons c cs)
  let ?s = "c # cs"
  let ?hit = "ciPrefix (str ''<svg'') ?s \<and> 0x3E \<in> set (drop 4 ?s)"
  have unfold: "svgRootMatch l ?s =
      (if ?hit
       then Some (l, take 4 ?s, takeWhile (\<lambda>x. x \<noteq> 0x3E) (drop 4 ?s),
                  tl (dropWhile (\<lambda>x. x \<noteq> 0x3E) (drop 4 ?s)))
       else svgRootMatch (l @ [c]) cs)"
    by (simp only: svgRootMatch.simps)
  show ?case
  proof (cases ?hit)
    case True
    from Cons.prems
    have "Some (l, take 4 ?s, takeWhile (\<lambda>x. x \<noteq> 0x3E) (drop 4 ?s),
                tl (dropWhile (\<lambda>x. x \<noteq> 0x3E) (drop 4 ?s))) = Some (l', tag, attrs, r)"
      by (simp only: unfold if_P [OF True])
    then have eqs: "l' = l" "tag = take 4 ?s"
      "attrs = takeWhile (\<lambda>x. x \<noteq> 0x3E) (drop 4 ?s)"
      "r = tl (dropWhile (\<lambda>x. x \<noteq> 0x3E) (drop 4 ?s))"
      by (simp_all only: option.inject prod.inject)
    from True have "0x3E \<in> set (drop 4 ?s)" ..
    then have "attrs @ [0x3E] @ r = drop 4 ?s"
      unfolding eqs by (rule split_at_gt)
    then have "tag @ attrs @ [0x3E] @ r = take 4 ?s @ drop 4 ?s"
      unfolding eqs(2) by (simp only: )
    then have "tag @ attrs @ [0x3E] @ r = ?s"
      by (simp only: append_take_drop_id)
    then show ?thesis
      unfolding eqs(1) by (simp add: str_def)
  next
    case False
    from Cons.prems have "svgRootMatch (l @ [c]) cs = Some (l', tag, attrs, r)"
      by (simp only: unfold if_not_P [OF False])
    from Cons.IH [OF this] show ?thesis
      by simp
  qed
qed

text \<open>
  The substitution of \<open>currentColor\<close> runs over the whole markup, the root tag
  included: a root with \<open>fill="none"\<close> and \<open>stroke="currentColor"\<close> keeps its fill
  and has its stroke substituted.
\<close>

lemma themeSvgContent_rewrites_root_attributes:
  \<open>svgRootMatch [] svgStrokeRoot
     = Some ([], str ''<svg'', str '' fill="none" stroke="currentColor"'', str ''</svg>'')
   \<and> hasFillAttribute (str '' fill="none" stroke="currentColor"'')
   \<and> svgRootMatch [] (themeSvgContent bareEnv svgStrokeRoot (Some (str ''#ff0000'')))
     = Some ([], str ''<svg'', str '' fill="none" stroke="#ff0000"'', str ''</svg>'')
   \<and> str '' fill="none" stroke="#ff0000"'' \<noteq> str '' fill="none" stroke="currentColor"''\<close>
  by code_simp

text \<open>
  When the attributes that the pattern captures hold a fill attribute, the second step
  returns the match as it is, so the result is the markup after the substitution.
\<close>

lemma themeSvgContent_root_with_fill:
  assumes "color = (case foregroundColor of Some c \<Rightarrow> c | None \<Rightarrow> getForegroundColor e)"
    and "svgRootMatch [] (replaceCurrentColor color [] svgContent) = Some (l, tag, attrs, r)"
    and "hasFillAttribute attrs"
  shows "themeSvgContent e svgContent foregroundColor = replaceCurrentColor color [] svgContent"
proof -
  from assms(2) have "replaceCurrentColor color [] svgContent = l @ tag @ attrs @ str ''>'' @ r"
    using svgRootMatch_decomposes [of "[]"] by simp
  with assms show ?thesis
    by (simp add: themeSvgContent_def)
qed

text \<open>
  C7: the root tag of \<open><svg data-x="a>b" fill="none"></svg>\<close> carries
  \<open>fill="none"\<close>, and \<open>themeSvgContent\<close> injects a fill into it all the same. The
  pattern \<open><svg([^>]*)>\<close> ends the tag at the first \<open>>\<close>, which here stands inside
  the value of an attribute, so the captured attributes are cut short before the fill
  attribute, the test for a fill attribute fails, and \<open>fill="red"\<close> is added.
\<close>

theorem themeSvgContent_injects_beside_root_fill:
  \<open>svgRootMatch [] svgQuotedGt
     = Some ([], str ''<svg'', str '' data-x="a'', str ''b" fill="none"></svg>'')
   \<and> \<not> hasFillAttribute (str '' data-x="a'')
   \<and> themeSvgContent e svgQuotedGt (Some (str ''red''))
     = str ''<svg data-x="a fill="red">b" fill="none"></svg>''\<close>
  by code_simp

subsection \<open>The tiers of \<open>loadSourceIcon\<close>\<close>

lemma truthyValue_Some: "truthyValue v = Some s \<Longrightarrow> v = Some s \<and> s \<noteq> []"
  by (auto simp: truthyValue_def split: option.splits if_splits)

lemma truthyValue_simps:
  "truthyValue None = None"
  "truthyValue (Some s) = (if s = [] then None else Some s)"
  by (simp_all add: truthyValue_def)

lemma EMOJI_ICON_PREFIX_nonempty: "EMOJI_ICON_PREFIX \<noteq> []"
  by (simp add: EMOJI_ICON_PREFIX_def str_def)

lemma loadSourceIcon_local_tiers:
  "loadSourceIcon_local e source =
     orElse (cachedTier source)
       (orElse (emojiTier e source)
         (orElse (explicitTier e source)
           (orElse (fileTier e source (iconSvgPath source))
                   (fileTier e source (iconPngPath source)))))"
  by (rule ext)
    (simp add: loadSourceIcon_local_def orElse_def cachedTier_def emojiTier_def explicitTier_def
      fileTier_def cacheAndReturn_def loadWorkspaceIcon_def Let_def truthyValue_simps
      explicitPath_def iconSvgPath_def iconPngPath_def EMOJI_ICON_PREFIX_nonempty
      split: option.split)

lemma orElseE:
  assumes "orElse f g st = (r, st')"
  obtains v where "f st = (Some v, st')" and "r = Some v"
  | s1 where "f st = (None, s1)" and "g s1 = (r, st')"
  using assms by (auto simp: orElse_def split: prod.splits option.splits)

text \<open>What each tier returns, and the state it leaves.\<close>

lemma cacheAndReturn_cases:
  assumes "cacheAndReturn k x st = (r, st')"
  shows "(r = None \<and> st' = st \<and> truthyValue x = None)
     \<or> (\<exists>v. r = Some v \<and> x = Some v \<and> v \<noteq> [] \<and> st' = sourceIconCache_set k v st)"
  using assms by (cases x) (auto simp: cacheAndReturn_def truthyValue_simps split: if_splits)

lemma cachedTier_cases:
  assumes "cachedTier src st = (r, st')"
  shows "st' = st
     \<and> ((r = None \<and> truthyValue (iconCache st (str ''source:'' @ sourceCacheKey src)) = None)
        \<or> (\<exists>v. r = Some v \<and> iconCache st (str ''source:'' @ sourceCacheKey src) = Some v \<and> v \<noteq> []))"
proof (cases "truthyValue (iconCache st (str ''source:'' @ sourceCacheKey src))")
  case None
  with assms show ?thesis
    by (auto simp: cachedTier_def sourceIconCache_get_def)
next
  case (Some v)
  from truthyValue_Some [OF this] Some assms show ?thesis
    by (auto simp: cachedTier_def sourceIconCache_get_def)
qed

lemma emojiTier_cases:
  assumes "emojiTier e src st = (r, st')"
  shows "(r = None \<and> st' = st \<and> \<not> (\<exists>i. icon (config src) = Some i \<and> isEmoji e i))
     \<or> (\<exists>i. r = Some (EMOJI_ICON_PREFIX @ i) \<and> icon (config src) = Some i \<and> isEmoji e i
          \<and> st' = sourceIconCache_set (sourceCacheKey src) (EMOJI_ICON_PREFIX @ i) st)"
proof (cases "icon (config src)")
  case None
  with assms show ?thesis
    by (simp add: emojiTier_def cacheAndReturn_def truthyValue_simps)
next
  case (Some i)
  have "\<not> isEmoji e []"
    by (simp add: isEmoji_def EMOJI_REGEX_test_def)
  with assms Some show ?thesis
    by (cases "i = []"; cases "isEmoji e i")
      (auto simp: emojiTier_def cacheAndReturn_def truthyValue_simps EMOJI_ICON_PREFIX_nonempty)
qed

lemma fileTier_cases:
  assumes "fileTier e src p st = (r, st')"
  shows "(r = None \<and> st' = st\<lparr>calls := calls st @ [ReadWorkspaceImage (workspaceId src) p]\<rparr>
          \<and> truthyValue (loadWorkspaceIcon_value e (workspaceId src) p) = None)
     \<or> (\<exists>v. r = Some v \<and> loadWorkspaceIcon_value e (workspaceId src) p = Some v \<and> v \<noteq> []
          \<and> st' = sourceIconCache_set (sourceCacheKey src) v
                    (st\<lparr>calls := calls st @ [ReadWorkspaceImage (workspaceId src) p]\<rparr>))"
  using assms cacheAndReturn_cases [of "sourceCacheKey src" "loadWorkspaceIcon_value e (workspaceId src) p"
      "st\<lparr>calls := calls st @ [ReadWorkspaceImage (workspaceId src) p]\<rparr>" r st']
  by (simp add: fileTier_def loadWorkspaceIcon_def)

lemma explicitTier_cases:
  assumes "explicitTier e src st = (r, st')"
  shows "(r = None \<and> st' = st \<and> explicitPath src = None)
     \<or> (\<exists>p. explicitPath src = Some p \<and> fileTier e src p st = (r, st'))"
  using assms
  by (auto simp: explicitTier_def split: option.splits)

lemma local_frame:
  assumes "loadSourceIcon_local e src st = (r, st')"
  shows "logoUrlCache st' = logoUrlCache st \<and> console st' = console st
    \<and> faviconCalls st' = faviconCalls st
    \<and> (case r of
          Some v \<Rightarrow> v \<noteq> [] \<and> iconCache st' = (iconCache st)(str ''source:'' @ sourceCacheKey src \<mapsto> v)
        | None \<Rightarrow> iconCache st' = iconCache st)"
  using assms unfolding loadSourceIcon_local_tiers
  apply (elim orElseE)
  apply (auto dest!: cachedTier_cases emojiTier_cases explicitTier_cases fileTier_cases
      simp: sourceIconCache_set_def faviconCalls_def EMOJI_ICON_PREFIX_nonempty)
  done

lemma local_determ:
  assumes "iconCache s2 (str ''source:'' @ sourceCacheKey src) = iconCache st (str ''source:'' @ sourceCacheKey src)"
  shows "fst (loadSourceIcon_local e src s2) = fst (loadSourceIcon_local e src st)"
  using assms
  by (simp add: loadSourceIcon_local_tiers orElse_def cachedTier_def emojiTier_def explicitTier_def
      fileTier_def cacheAndReturn_def loadWorkspaceIcon_def sourceIconCache_get_def
      split: option.split prod.split)

subsection \<open>Priority 5\<close>

lemma deriveServiceUrl_truthy: "truthyValue (deriveServiceUrl cfg) = deriveServiceUrl cfg"
  by (auto simp: deriveServiceUrl_def truthy_def truthyValue_def split: option.splits)

lemma favicon_no_url:
  assumes "deriveServiceUrl (config src) = None"
  shows "loadSourceIcon_favicon e src st = (None, st)"
  using assms by (simp add: loadSourceIcon_favicon_def deriveServiceUrl_truthy)

lemma favicon_cached:
  assumes "deriveServiceUrl (config src) = Some u"
    and "logoUrlCache st (logoCacheKey u src) = Some v"
  shows "loadSourceIcon_favicon e src st = (v, snd (cacheAndReturn (sourceCacheKey src) v st))"
  using assms
  by (simp add: loadSourceIcon_favicon_def deriveServiceUrl_truthy logoCacheKey_def cacheAndReturn_def
      Let_def split: option.split)

lemma favicon_fetched:
  assumes "deriveServiceUrl (config src) = Some u"
    and "logoUrlCache st (logoCacheKey u src) = None"
    and "getLogoUrl e u (SourceConfig.slug (config src)) = Inr v"
  shows "loadSourceIcon_favicon e src st =
     (v, snd (cacheAndReturn (sourceCacheKey src) v
           (st\<lparr>calls := calls st @ [GetLogoUrl u (SourceConfig.slug (config src))],
               logoUrlCache := (logoUrlCache st)(logoCacheKey u src \<mapsto> v)\<rparr>)))"
  using assms
  by (simp add: loadSourceIcon_favicon_def deriveServiceUrl_truthy logoCacheKey_def cacheAndReturn_def
      Let_def split: option.split)

lemma favicon_failed:
  assumes "deriveServiceUrl (config src) = Some u"
    and "logoUrlCache st (logoCacheKey u src) = None"
    and "getLogoUrl e u (SourceConfig.slug (config src)) = Inl err"
  shows "loadSourceIcon_favicon e src st =
     (None, st\<lparr>calls := calls st @ [GetLogoUrl u (SourceConfig.slug (config src))],
               console := console st @ [(str ''[IconCache] Failed to resolve logo URL:'', err)],
               logoUrlCache := (logoUrlCache st)(logoCacheKey u src \<mapsto> None)\<rparr>)"
  using assms
  by (simp add: loadSourceIcon_favicon_def deriveServiceUrl_truthy logoCacheKey_def Let_def)

lemma snd_cacheAndReturn_frame:
  "logoUrlCache (snd (cacheAndReturn k v st)) = logoUrlCache st"
  "calls (snd (cacheAndReturn k v st)) = calls st"
  "console (snd (cacheAndReturn k v st)) = console st"
  "faviconCalls (snd (cacheAndReturn k v st)) = faviconCalls st"
  "truthyValue v = None \<Longrightarrow> snd (cacheAndReturn k v st) = st"
  "truthyValue v = Some x \<Longrightarrow> iconCache (snd (cacheAndReturn k v st)) (str ''source:'' @ k) = Some x"
  by (simp_all add: cacheAndReturn_def sourceIconCache_set_def faviconCalls_def split: option.split)

lemma loadSourceIcon_split:
  "loadSourceIcon e src st =
     (case fst (loadSourceIcon_local e src st) of
        Some v \<Rightarrow> loadSourceIcon_local e src st
      | None \<Rightarrow> loadSourceIcon_favicon e src (snd (loadSourceIcon_local e src st)))"
  by (simp add: loadSourceIcon_def split: prod.split option.split)

lemma loadSourceIcon_hit:
  assumes "iconCache st (str ''source:'' @ sourceCacheKey src) = Some v" and "v \<noteq> []"
  shows "loadSourceIcon e src st = (Some v, st)"
  using assms
  by (simp add: loadSourceIcon_def loadSourceIcon_local_tiers orElse_def cachedTier_def
      sourceIconCache_get_def truthyValue_simps)

lemma local_reaches_fallback:
  assumes "fst (loadSourceIcon_local e src st) = None"
  shows "loadSourceIcon e src st = loadSourceIcon_favicon e src (snd (loadSourceIcon_local e src st))"
    and "iconCache (snd (loadSourceIcon_local e src st)) = iconCache st"
    and "logoUrlCache (snd (loadSourceIcon_local e src st)) = logoUrlCache st"
    and "console (snd (loadSourceIcon_local e src st)) = console st"
    and "faviconCalls (snd (loadSourceIcon_local e src st)) = faviconCalls st"
proof -
  obtain s1 where l: "loadSourceIcon_local e src st = (None, s1)"
    using assms by (cases "loadSourceIcon_local e src st") simp
  from local_frame [OF l] l
  show "iconCache (snd (loadSourceIcon_local e src st)) = iconCache st"
    and "logoUrlCache (snd (loadSourceIcon_local e src st)) = logoUrlCache st"
    and "console (snd (loadSourceIcon_local e src st)) = console st"
    and "faviconCalls (snd (loadSourceIcon_local e src st)) = faviconCalls st"
    by simp_all
  from l show "loadSourceIcon e src st = loadSourceIcon_favicon e src (snd (loadSourceIcon_local e src st))"
    by (simp add: loadSourceIcon_def)
qed

lemma local_returns:
  assumes "fst (loadSourceIcon_local e src st) = Some v"
  shows "loadSourceIcon e src st = loadSourceIcon_local e src st"
    and "v \<noteq> []"
    and "iconCache (snd (loadSourceIcon_local e src st)) (str ''source:'' @ sourceCacheKey src) = Some v"
proof -
  obtain s1 where l: "loadSourceIcon_local e src st = (Some v, s1)"
    using assms by (cases "loadSourceIcon_local e src st") simp
  from local_frame [OF l] l
  show "v \<noteq> []"
    and "iconCache (snd (loadSourceIcon_local e src st)) (str ''source:'' @ sourceCacheKey src) = Some v"
    by simp_all
  from l show "loadSourceIcon e src st = loadSourceIcon_local e src st"
    by (simp add: loadSourceIcon_def)
qed

text \<open>After a call, whatever it returned: a truthy result is in the icon cache.\<close>

lemma loadSourceIcon_truthy_cached:
  assumes "loadSourceIcon e src st = (Some v, s1)" and "v \<noteq> []"
  shows "iconCache s1 (str ''source:'' @ sourceCacheKey src) = Some v"
proof (cases "fst (loadSourceIcon_local e src st)")
  case (Some x)
  have "loadSourceIcon_local e src st = (Some v, s1)"
    using local_returns(1) [OF Some] assms(1) by simp
  from local_frame [OF this] show ?thesis
    by simp
next
  case None
  let ?sa = "snd (loadSourceIcon_local e src st)"
  have fav: "loadSourceIcon_favicon e src ?sa = (Some v, s1)"
    using local_reaches_fallback(1) [OF None] assms(1) by simp
  show ?thesis
  proof (cases "deriveServiceUrl (config src)")
    case None
    with fav show ?thesis
      by (simp add: favicon_no_url)
  next
    case (Some u)
    note url = this
    have tv: "truthyValue (Some v) = Some v"
      using assms(2) by (simp add: truthyValue_simps)
    show ?thesis
    proof (cases "logoUrlCache ?sa (logoCacheKey u src)")
      case (Some c)
      with fav url tv show ?thesis
        by (auto simp: favicon_cached snd_cacheAndReturn_frame)
    next
      case None
      note miss = this
      show ?thesis
      proof (cases "getLogoUrl e u (SourceConfig.slug (config src))")
        case (Inl err)
        with fav url miss show ?thesis
          by (simp add: favicon_failed)
      next
        case (Inr w)
        with fav url miss tv show ?thesis
          by (auto simp: favicon_fetched snd_cacheAndReturn_frame)
      qed
    qed
  qed
qed

subsection \<open>Two calls in a row\<close>

lemma loadSourceIcon_falsy:
  assumes first: "loadSourceIcon e src st = (r1, s1)"
    and falsy: "truthyValue r1 = None"
  shows "fst (loadSourceIcon_local e src st) = None \<and> iconCache s1 = iconCache st
     \<and> (deriveServiceUrl (config src) = None \<and> r1 = None \<and> s1 = snd (loadSourceIcon_local e src st)
        \<or> (\<exists>u. deriveServiceUrl (config src) = Some u \<and> logoUrlCache s1 (logoCacheKey u src) = Some r1))"
proof -
  let ?sa = "snd (loadSourceIcon_local e src st)"
  have miss1: "fst (loadSourceIcon_local e src st) = None"
  proof (cases "fst (loadSourceIcon_local e src st)")
    case None
    then show ?thesis .
  next
    case (Some v)
    then obtain sx where l: "loadSourceIcon_local e src st = (Some v, sx)"
      by (cases "loadSourceIcon_local e src st") simp
    from local_returns(1,2) [OF Some] l first have "r1 = Some v" and "v \<noteq> []"
      by simp_all
    with falsy show ?thesis
      by (simp add: truthyValue_simps)
  qed
  note a = local_reaches_fallback [OF miss1]
  have fav1: "loadSourceIcon_favicon e src ?sa = (r1, s1)"
    using a(1) first by simp
  have keep: "iconCache s1 = iconCache st
      \<and> (deriveServiceUrl (config src) = None \<and> r1 = None \<and> s1 = ?sa
         \<or> (\<exists>u. deriveServiceUrl (config src) = Some u \<and> logoUrlCache s1 (logoCacheKey u src) = Some r1))"
  proof (cases "deriveServiceUrl (config src)")
    case None
    with fav1 a(2) show ?thesis
      by (auto simp: favicon_no_url)
  next
    case (Some u)
    note url = this
    show ?thesis
    proof (cases "logoUrlCache ?sa (logoCacheKey u src)")
      case (Some c)
      with fav1 url falsy a(2) show ?thesis
        by (auto simp: favicon_cached snd_cacheAndReturn_frame)
    next
      case None
      note miss = this
      show ?thesis
      proof (cases "getLogoUrl e u (SourceConfig.slug (config src))")
        case (Inl err)
        with fav1 url miss a(2) show ?thesis
          by (auto simp: favicon_failed)
      next
        case (Inr w)
        with fav1 url miss falsy a(2) show ?thesis
          by (auto simp: favicon_fetched snd_cacheAndReturn_frame)
      qed
    qed
  qed
  with miss1 show ?thesis
    by simp
qed

lemma loadSourceIcon_falsy_again:
  assumes first: "loadSourceIcon e src st = (r1, s1)"
    and falsy: "truthyValue r1 = None"
    and second: "loadSourceIcon e src s1 = (r2, s2)"
  shows "r2 = r1 \<and> faviconCalls s2 = faviconCalls s1 \<and> iconCache s2 = iconCache s1
     \<and> logoUrlCache s2 = logoUrlCache s1 \<and> console s2 = console s1"
proof -
  let ?K = "str ''source:'' @ sourceCacheKey src"
  let ?sa = "snd (loadSourceIcon_local e src st)"
  let ?sb = "snd (loadSourceIcon_local e src s1)"
  from loadSourceIcon_falsy [OF first falsy]
  have miss1: "fst (loadSourceIcon_local e src st) = None"
    and keep: "iconCache s1 = iconCache st
      \<and> (deriveServiceUrl (config src) = None \<and> r1 = None \<and> s1 = ?sa
         \<or> (\<exists>u. deriveServiceUrl (config src) = Some u \<and> logoUrlCache s1 (logoCacheKey u src) = Some r1))"
    by simp_all
  then have same: "iconCache s1 ?K = iconCache st ?K"
    by simp
  have miss2: "fst (loadSourceIcon_local e src s1) = None"
    using local_determ [OF same, of e] miss1 by simp
  note b = local_reaches_fallback [OF miss2]
  have fav2: "loadSourceIcon_favicon e src ?sb = (r2, s2)"
    using b(1) second by simp
  from keep show ?thesis
  proof (elim conjE disjE exE)
    assume "deriveServiceUrl (config src) = None" and "r1 = None"
    with fav2 b show ?thesis
      by (auto simp: favicon_no_url)
  next
    fix u
    assume url: "deriveServiceUrl (config src) = Some u"
      and stored: "logoUrlCache s1 (logoCacheKey u src) = Some r1"
    from stored b(3) have "logoUrlCache ?sb (logoCacheKey u src) = Some r1"
      by simp
    from favicon_cached [OF url this, of e] fav2 falsy b show ?thesis
      by (auto simp: snd_cacheAndReturn_frame)
  qed
qed

text \<open>
  C2, as stated, fails: a source without a local icon file and without a service URL
  resolves to \<open>null\<close>, nothing is cached for it, and the second call reads the two
  files again.
\<close>

theorem loadSourceIcon_second_call_reads_again:
  "fst (loadSourceIcon bareEnv (localSource None) emptyCaches) = None
   \<and> calls (snd (loadSourceIcon bareEnv (localSource None) emptyCaches))
       = [ReadWorkspaceImage (str ''ws'') (str ''sources/x/icon.svg''),
          ReadWorkspaceImage (str ''ws'') (str ''sources/x/icon.png'')]
   \<and> calls (snd (loadSourceIcon bareEnv (localSource None)
                   (snd (loadSourceIcon bareEnv (localSource None) emptyCaches))))
       = [ReadWorkspaceImage (str ''ws'') (str ''sources/x/icon.svg''),
          ReadWorkspaceImage (str ''ws'') (str ''sources/x/icon.png''),
          ReadWorkspaceImage (str ''ws'') (str ''sources/x/icon.svg''),
          ReadWorkspaceImage (str ''ws'') (str ''sources/x/icon.png'')]"
  by code_simp

text \<open>
  C2 (amended): two calls in a row with the same source and the same collaborators return
  the same result, and the second call never invokes the favicon collaborator and leaves
  both caches as they are. When the first result is a non-empty string, the second call
  performs no I/O at all; after \<open>null\<close> (or an empty string) it may read the local
  files again, since a miss is not cached in the icon cache.
\<close>

theorem loadSourceIcon_twice:
  assumes "loadSourceIcon e source st = (r1, s1)"
    and "loadSourceIcon e source s1 = (r2, s2)"
  shows "r2 = r1 \<and> faviconCalls s2 = faviconCalls s1
     \<and> iconCache s2 = iconCache s1 \<and> logoUrlCache s2 = logoUrlCache s1
     \<and> (truthyValue r1 \<noteq> None \<longrightarrow> s2 = s1)"
proof (cases "truthyValue r1")
  case None
  from loadSourceIcon_falsy_again [OF assms(1) None assms(2)] None show ?thesis
    by simp
next
  case (Some v)
  from truthyValue_Some [OF Some] have r1: "r1 = Some v" and v: "v \<noteq> []"
    by simp_all
  from loadSourceIcon_truthy_cached [OF assms(1) [unfolded r1] v]
  have "loadSourceIcon e source s1 = (Some v, s1)"
    using v by (rule loadSourceIcon_hit)
  with assms(2) r1 Some show ?thesis
    by simp
qed

theorem loadSourceIcon_twice_witness:
  "fst (loadSourceIcon logoEnv linearSource (snd (loadSourceIcon logoEnv linearSource emptyCaches)))
     = fst (loadSourceIcon logoEnv linearSource emptyCaches)
   \<and> calls (snd (loadSourceIcon logoEnv linearSource (snd (loadSourceIcon logoEnv linearSource emptyCaches))))
     = calls (snd (loadSourceIcon logoEnv linearSource emptyCaches))
   \<and> fst (loadSourceIcon logoEnv linearSource emptyCaches) = Some (str ''https://logo'')"
proof -
  have r: "fst (loadSourceIcon logoEnv linearSource emptyCaches) = Some (str ''https://logo'')"
    by code_simp
  have t: "truthyValue (Some (str ''https://logo'')) \<noteq> None"
    by (simp add: truthyValue_simps str_def)
  from loadSourceIcon_twice [OF surjective_pairing surjective_pairing,
      of logoEnv linearSource emptyCaches] r t
  show ?thesis
    by simp
qed

subsection \<open>Emoji icons\<close>

text \<open>
  For an icon that the pattern accepts, and a key that is not cached, the call returns the
  marker followed by the icon and caches it; the collaborator calls and the logo-URL
  cache stay as they are.
\<close>

lemma loadSourceIcon_emoji:
  assumes "truthyValue (iconCache st (str ''source:'' @ sourceCacheKey source)) = None"
    and "icon (config source) = Some i" and "isEmoji e i"
  shows "loadSourceIcon e source st =
     (Some (EMOJI_ICON_PREFIX @ i), sourceIconCache_set (sourceCacheKey source) (EMOJI_ICON_PREFIX @ i) st)"
proof -
  from assms(3) have "i \<noteq> []"
    by (auto simp: isEmoji_def EMOJI_REGEX_test_def)
  with assms show ?thesis
    by (simp add: loadSourceIcon_def loadSourceIcon_local_tiers orElse_def cachedTier_def
        emojiTier_def cacheAndReturn_def sourceIconCache_get_def truthyValue_simps
        EMOJI_ICON_PREFIX_nonempty)
qed

lemma flagUS_not_matched: "\<not> isEmoji e flagUS"
  by (simp add: isEmoji_def EMOJI_REGEX_test_def flagUS_def isHighSurrogate_def isLowSurrogate_def)

lemma thumbsUpMediumSkin_not_matched: "\<not> isEmoji e thumbsUpMediumSkin"
  by (simp add: isEmoji_def EMOJI_REGEX_test_def thumbsUpMediumSkin_def isHighSurrogate_def
      isLowSurrogate_def)

text \<open>
  C1: the flag of the United States (two regional indicators) and a thumbs-up with a
  skin-tone modifier are single emoji grapheme clusters of four code units, and the
  pattern matches neither, whatever the Unicode tables say: after its first element it
  accepts only U+200D or the end of the input. With the flag as its icon, a source in an
  empty workspace is not given the marker: both icon files are read and the result is
  \<open>null\<close>.
\<close>

theorem flag_and_skin_tone_icons_not_emoji:
  "\<not> isEmoji e flagUS \<and> \<not> isEmoji e thumbsUpMediumSkin
   \<and> loadSourceIcon bareEnv (localSource (Some flagUS)) emptyCaches
      = (None, emptyCaches\<lparr>calls := [ReadWorkspaceImage (str ''ws'') (str ''sources/x/icon.svg''),
                                      ReadWorkspaceImage (str ''ws'') (str ''sources/x/icon.png'')]\<rparr>)"
proof -
  have "loadSourceIcon bareEnv (localSource (Some flagUS)) emptyCaches
      = (None, emptyCaches\<lparr>calls := [ReadWorkspaceImage (str ''ws'') (str ''sources/x/icon.svg''),
                                      ReadWorkspaceImage (str ''ws'') (str ''sources/x/icon.png'')]\<rparr>)"
    using flagUS_not_matched [of bareEnv]
    by (simp add: loadSourceIcon_def loadSourceIcon_local_tiers orElse_def cachedTier_def
        emojiTier_def explicitTier_def explicitPath_def fileTier_def cacheAndReturn_def
        loadWorkspaceIcon_def loadWorkspaceIcon_value_def sourceIconCache_get_def truthyValue_simps
        iconSvgPath_def iconPngPath_def localSource_def emptyCaches_def bareEnv_def flagUS_def
        startsWith_def str_def favicon_no_url deriveServiceUrl_def)
  with flagUS_not_matched thumbsUpMediumSkin_not_matched show ?thesis
    by simp
qed

subsection \<open>The favicon fallback\<close>

lemma favicon_calls_from_fallback:
  assumes "fst (loadSourceIcon_local e src st) = None"
    and "deriveServiceUrl (config src) = Some u"
    and "logoUrlCache st (logoCacheKey u src) = Some v"
  shows "fst (loadSourceIcon e src st) = v"
    and "faviconCalls (snd (loadSourceIcon e src st)) = faviconCalls st"
    and "logoUrlCache (snd (loadSourceIcon e src st)) = logoUrlCache st"
    and "console (snd (loadSourceIcon e src st)) = console st"
proof -
  note a = local_reaches_fallback [OF assms(1)]
  from assms(3) a(3) have "logoUrlCache (snd (loadSourceIcon_local e src st)) (logoCacheKey u src) = Some v"
    by simp
  note f = favicon_cached [OF assms(2) this, of e]
  from f a show "fst (loadSourceIcon e src st) = v"
    and "faviconCalls (snd (loadSourceIcon e src st)) = faviconCalls st"
    and "logoUrlCache (snd (loadSourceIcon e src st)) = logoUrlCache st"
    and "console (snd (loadSourceIcon e src st)) = console st"
    by (simp_all add: snd_cacheAndReturn_frame)
qed

text \<open>
  C4: let the source have a service URL. When control reaches the favicon fallback, the
  logo-URL cache has no entry for the key and the favicon collaborator throws, then
  \<open>loadSourceIcon\<close> returns \<open>null\<close> (it has no other outcome than a value), logs
  one line to \<open>console.error\<close>, stores \<open>null\<close> under the key and leaves the icon
  cache alone; a following call that reaches the fallback, in any environment, returns
  \<open>null\<close> again without invoking the favicon collaborator. In general a call that
  reaches the fallback while the logo-URL cache holds a value for the key, \<open>null\<close>
  included, returns that value, invokes no favicon lookup and leaves the logo-URL cache
  as it is.
\<close>

theorem favicon_failure_cached_as_null:
  assumes url: "deriveServiceUrl (config source) = Some serviceUrl"
  shows "(fst (loadSourceIcon_local e source st) = None
          \<and> logoUrlCache st (logoCacheKey serviceUrl source) = None
          \<and> getLogoUrl e serviceUrl (SourceConfig.slug (config source)) = Inl err
        \<longrightarrow> fst (loadSourceIcon e source st) = None
          \<and> logoUrlCache (snd (loadSourceIcon e source st))
              = (logoUrlCache st)(logoCacheKey serviceUrl source \<mapsto> None)
          \<and> console (snd (loadSourceIcon e source st))
              = console st @ [(str ''[IconCache] Failed to resolve logo URL:'', err)]
          \<and> faviconCalls (snd (loadSourceIcon e source st))
              = faviconCalls st @ [GetLogoUrl serviceUrl (SourceConfig.slug (config source))]
          \<and> iconCache (snd (loadSourceIcon e source st)) = iconCache st
          \<and> (fst (loadSourceIcon_local e2 source (snd (loadSourceIcon e source st))) = None
              \<longrightarrow> fst (loadSourceIcon e2 source (snd (loadSourceIcon e source st))) = None
                \<and> faviconCalls (snd (loadSourceIcon e2 source (snd (loadSourceIcon e source st))))
                    = faviconCalls (snd (loadSourceIcon e source st))))
     \<and> (fst (loadSourceIcon_local e source st) = None
          \<and> logoUrlCache st (logoCacheKey serviceUrl source) = Some stored
        \<longrightarrow> fst (loadSourceIcon e source st) = stored
          \<and> faviconCalls (snd (loadSourceIcon e source st)) = faviconCalls st
          \<and> logoUrlCache (snd (loadSourceIcon e source st)) = logoUrlCache st)"
proof (intro conjI impI; (elim conjE)?)
  assume reach: "fst (loadSourceIcon_local e source st) = None"
    and stored: "logoUrlCache st (logoCacheKey serviceUrl source) = Some stored"
  from favicon_calls_from_fallback [OF reach url stored]
  show "fst (loadSourceIcon e source st) = stored"
    and "faviconCalls (snd (loadSourceIcon e source st)) = faviconCalls st"
    and "logoUrlCache (snd (loadSourceIcon e source st)) = logoUrlCache st"
    by simp_all
next
  assume reach: "fst (loadSourceIcon_local e source st) = None"
    and miss: "logoUrlCache st (logoCacheKey serviceUrl source) = None"
    and fail: "getLogoUrl e serviceUrl (SourceConfig.slug (config source)) = Inl err"
  note a = local_reaches_fallback [OF reach]
  from miss a(3) have "logoUrlCache (snd (loadSourceIcon_local e source st)) (logoCacheKey serviceUrl source) = None"
    by simp
  note f = favicon_failed [OF url this fail]
  from f a show r: "fst (loadSourceIcon e source st) = None"
    and l: "logoUrlCache (snd (loadSourceIcon e source st))
              = (logoUrlCache st)(logoCacheKey serviceUrl source \<mapsto> None)"
    and "console (snd (loadSourceIcon e source st))
              = console st @ [(str ''[IconCache] Failed to resolve logo URL:'', err)]"
    and "faviconCalls (snd (loadSourceIcon e source st))
              = faviconCalls st @ [GetLogoUrl serviceUrl (SourceConfig.slug (config source))]"
    and "iconCache (snd (loadSourceIcon e source st)) = iconCache st"
    by (simp_all add: faviconCalls_def)
  assume reach2: "fst (loadSourceIcon_local e2 source (snd (loadSourceIcon e source st))) = None"
  from l have "logoUrlCache (snd (loadSourceIcon e source st)) (logoCacheKey serviceUrl source) = Some None"
    by simp
  from favicon_calls_from_fallback [OF reach2 url this]
  show "fst (loadSourceIcon e2 source (snd (loadSourceIcon e source st))) = None"
    and "faviconCalls (snd (loadSourceIcon e2 source (snd (loadSourceIcon e source st))))
                    = faviconCalls (snd (loadSourceIcon e source st))"
    by simp_all
qed

theorem favicon_failure_cached_as_null_witness:
  "fst (loadSourceIcon offlineEnv linearSource emptyCaches) = None
   \<and> logoUrlCache (snd (loadSourceIcon offlineEnv linearSource emptyCaches))
        (str ''https://api.linear.app:linear'') = Some None
   \<and> console (snd (loadSourceIcon offlineEnv linearSource emptyCaches))
        = [(str ''[IconCache] Failed to resolve logo URL:'', JsError (str ''ETIMEDOUT''))]
   \<and> fst (loadSourceIcon logoEnv linearSource (snd (loadSourceIcon offlineEnv linearSource emptyCaches))) = None
   \<and> faviconCalls (snd (loadSourceIcon logoEnv linearSource
                          (snd (loadSourceIcon offlineEnv linearSource emptyCaches))))
        = [GetLogoUrl (str ''https://api.linear.app'') (str ''linear'')]"
proof -
  have url: "deriveServiceUrl (config linearSource) = Some (str ''https://api.linear.app'')"
    by code_simp
  have reach: "fst (loadSourceIcon_local offlineEnv linearSource emptyCaches) = None"
    by code_simp
  have miss: "logoUrlCache emptyCaches (logoCacheKey (str ''https://api.linear.app'') linearSource) = None"
    by (simp add: emptyCaches_def)
  have fail: "getLogoUrl offlineEnv (str ''https://api.linear.app'') (SourceConfig.slug (config linearSource))
      = Inl (JsError (str ''ETIMEDOUT''))"
    by (simp add: offlineEnv_def)
  have reach2: "fst (loadSourceIcon_local logoEnv linearSource
      (snd (loadSourceIcon offlineEnv linearSource emptyCaches))) = None"
    by code_simp
  have key: "logoCacheKey (str ''https://api.linear.app'') linearSource = str ''https://api.linear.app:linear''"
    by code_simp
  have slug: "SourceConfig.slug (config linearSource) = str ''linear''"
    by (simp add: linearSource_def)
  from favicon_failure_cached_as_null [OF url, of offlineEnv emptyCaches "JsError (str ''ETIMEDOUT'')" logoEnv]
    reach miss fail reach2
  show ?thesis
    by (simp add: key slug faviconCalls_def emptyCaches_def)
qed

subsection \<open>The service URL\<close>

lemma truthy_truthyValue: "truthy v = (truthyValue v \<noteq> None)"
  by (simp add: truthy_def truthyValue_def split: option.split)

lemma local_keeps_favicon_calls:
  "faviconCalls (snd (loadSourceIcon_local e src st)) = faviconCalls st"
  "logoUrlCache (snd (loadSourceIcon_local e src st)) = logoUrlCache st"
  using local_frame [OF surjective_pairing, of e src st] by simp_all

text \<open>
  C6: the service URL is \<open>config.mcp.url\<close> for a source of type \<open>mcp\<close> and
  \<open>config.api.baseUrl\<close> for one of type \<open>api\<close>, where that field holds a non-empty
  string; for every other type, and where the field of the source's type is absent (or
  empty), there is none. Without a service URL no call invokes the favicon collaborator
  or touches the logo-URL cache, and a call that reaches step 5 returns \<open>null\<close> with
  the icon cache unchanged. With a service URL \<open>u\<close>, a call that reaches step 5 and
  finds no entry in the logo-URL cache invokes the favicon collaborator once, with \<open>u\<close>
  and the slug.
\<close>

theorem service_url_by_type:
  "(type cfg = str ''mcp'' \<and> mcpUrl cfg = Some u \<and> u \<noteq> [] \<longrightarrow> deriveServiceUrl cfg = Some u)
   \<and> (type cfg = str ''api'' \<and> apiBaseUrl cfg = Some u \<and> u \<noteq> [] \<longrightarrow> deriveServiceUrl cfg = Some u)
   \<and> ((type cfg \<noteq> str ''mcp'' \<or> truthyValue (mcpUrl cfg) = None)
        \<and> (type cfg \<noteq> str ''api'' \<or> truthyValue (apiBaseUrl cfg) = None)
       \<longrightarrow> deriveServiceUrl cfg = None)
   \<and> (deriveServiceUrl (config source) = None
       \<longrightarrow> faviconCalls (snd (loadSourceIcon e source st)) = faviconCalls st
         \<and> logoUrlCache (snd (loadSourceIcon e source st)) = logoUrlCache st
         \<and> (fst (loadSourceIcon_local e source st) = None
             \<longrightarrow> fst (loadSourceIcon e source st) = None
               \<and> iconCache (snd (loadSourceIcon e source st)) = iconCache st))
   \<and> (deriveServiceUrl (config source) = Some u
        \<and> fst (loadSourceIcon_local e source st) = None
        \<and> logoUrlCache st (logoCacheKey u source) = None
       \<longrightarrow> faviconCalls (snd (loadSourceIcon e source st))
           = faviconCalls st @ [GetLogoUrl u (SourceConfig.slug (config source))])"
proof (intro conjI impI; (elim conjE)?)
  assume "type cfg = str ''mcp''" and "mcpUrl cfg = Some u" and "u \<noteq> []"
  then show "deriveServiceUrl cfg = Some u"
    by (simp add: deriveServiceUrl_def truthy_def)
next
  assume "type cfg = str ''api''" and "apiBaseUrl cfg = Some u" and "u \<noteq> []"
  then show "deriveServiceUrl cfg = Some u"
    by (simp add: deriveServiceUrl_def truthy_def str_def)
next
  assume "type cfg \<noteq> str ''mcp'' \<or> truthyValue (mcpUrl cfg) = None"
    and "type cfg \<noteq> str ''api'' \<or> truthyValue (apiBaseUrl cfg) = None"
  then show "deriveServiceUrl cfg = None"
    by (auto simp: deriveServiceUrl_def truthy_truthyValue)
next
  assume none: "deriveServiceUrl (config source) = None"
  show "faviconCalls (snd (loadSourceIcon e source st)) = faviconCalls st"
    and "logoUrlCache (snd (loadSourceIcon e source st)) = logoUrlCache st"
    by (simp_all add: loadSourceIcon_split favicon_no_url [OF none] local_keeps_favicon_calls
        split: option.split)
  assume reach: "fst (loadSourceIcon_local e source st) = None"
  from local_reaches_fallback [OF reach] show "fst (loadSourceIcon e source st) = None"
    and "iconCache (snd (loadSourceIcon e source st)) = iconCache st"
    by (simp_all add: favicon_no_url [OF none])
next
  assume url: "deriveServiceUrl (config source) = Some u"
    and reach: "fst (loadSourceIcon_local e source st) = None"
    and miss: "logoUrlCache st (logoCacheKey u source) = None"
  note a = local_reaches_fallback [OF reach]
  from miss a(3) have m: "logoUrlCache (snd (loadSourceIcon_local e source st)) (logoCacheKey u source) = None"
    by simp
  show "faviconCalls (snd (loadSourceIcon e source st))
           = faviconCalls st @ [GetLogoUrl u (SourceConfig.slug (config source))]"
  proof (cases "getLogoUrl e u (SourceConfig.slug (config source))")
    case (Inl err)
    from favicon_failed [OF url m Inl] a show ?thesis
      by (simp add: faviconCalls_def)
  next
    case (Inr v)
    from favicon_fetched [OF url m Inr] a show ?thesis
      by (simp add: snd_cacheAndReturn_frame) (simp add: faviconCalls_def)
  qed
qed

theorem service_url_by_type_witness:
  "deriveServiceUrl (config linearSource) = Some (str ''https://api.linear.app'')
   \<and> faviconCalls (snd (loadSourceIcon bareEnv linearSource emptyCaches))
       = [GetLogoUrl (str ''https://api.linear.app'') (str ''linear'')]
   \<and> deriveServiceUrl (config (localSource None)) = None
   \<and> fst (loadSourceIcon bareEnv (localSource None) emptyCaches) = None
   \<and> faviconCalls (snd (loadSourceIcon bareEnv (localSource None) emptyCaches)) = []"
proof -
  have t: "type (config linearSource) = str ''mcp''"
    "mcpUrl (config linearSource) = Some (str ''https://api.linear.app'')"
    "str ''https://api.linear.app'' \<noteq> []"
    by (simp_all add: linearSource_def mcpUrl_def str_def)
  have reach: "fst (loadSourceIcon_local bareEnv linearSource emptyCaches) = None"
    by code_simp
  have miss: "logoUrlCache emptyCaches (logoCacheKey (str ''https://api.linear.app'') linearSource) = None"
    by (simp add: emptyCaches_def)
  have t2: "type (config (localSource None)) \<noteq> str ''mcp''" "type (config (localSource None)) \<noteq> str ''api''"
    by (simp_all add: localSource_def str_def)
  have reach2: "fst (loadSourceIcon_local bareEnv (localSource None) emptyCaches) = None"
    by code_simp
  have slug: "SourceConfig.slug (config linearSource) = str ''linear''"
    by (simp add: linearSource_def)
  from service_url_by_type [of "config linearSource" "str ''https://api.linear.app''" linearSource bareEnv emptyCaches]
    t reach miss
  have a: "deriveServiceUrl (config linearSource) = Some (str ''https://api.linear.app'')
   \<and> faviconCalls (snd (loadSourceIcon bareEnv linearSource emptyCaches))
       = [GetLogoUrl (str ''https://api.linear.app'') (str ''linear'')]"
    by (simp add: slug faviconCalls_def emptyCaches_def)
  from service_url_by_type [of "config (localSource None)" "[]" "localSource None" bareEnv emptyCaches]
    t2 reach2
  have b: "deriveServiceUrl (config (localSource None)) = None
   \<and> fst (loadSourceIcon bareEnv (localSource None) emptyCaches) = None
   \<and> faviconCalls (snd (loadSourceIcon bareEnv (localSource None) emptyCaches)) = []"
    by (simp add: faviconCalls_def emptyCaches_def)
  from a b show ?thesis
    by simp
qed

subsection \<open>The icon field\<close>

lemma tiers_without_icon:
  "cachedTier (source\<lparr>config := (config source)\<lparr>icon := None\<rparr>\<rparr>) = cachedTier source"
  "fileTier e (source\<lparr>config := (config source)\<lparr>icon := None\<rparr>\<rparr>) p = fileTier e source p"
  "iconSvgPath (source\<lparr>config := (config source)\<lparr>icon := None\<rparr>\<rparr>) = iconSvgPath source"
  "iconPngPath (source\<lparr>config := (config source)\<lparr>icon := None\<rparr>\<rparr>) = iconPngPath source"
  by (simp_all add: fun_eq_iff cachedTier_def fileTier_def sourceCacheKey_def iconSvgPath_def
      iconPngPath_def)

lemma emojiTier_without_icon:
  assumes "icon (config source) = Some i" and "\<not> isEmoji e i"
  shows "emojiTier e (source\<lparr>config := (config source)\<lparr>icon := None\<rparr>\<rparr>) = emojiTier e source"
  using assms
  by (simp add: fun_eq_iff emojiTier_def sourceCacheKey_def truthyValue_simps)

lemma explicitTier_without_icon:
  assumes "icon (config source) = Some i" and "\<not> startsWith i (str ''./'')"
  shows "explicitTier e (source\<lparr>config := (config source)\<lparr>icon := None\<rparr>\<rparr>) = explicitTier e source"
  using assms
  by (simp add: fun_eq_iff explicitTier_def explicitPath_def)

lemma local_without_icon:
  assumes "icon (config source) = Some i" and "\<not> isEmoji e i" and "\<not> startsWith i (str ''./'')"
  shows "loadSourceIcon_local e (source\<lparr>config := (config source)\<lparr>icon := None\<rparr>\<rparr>)
       = loadSourceIcon_local e source"
  by (simp only: loadSourceIcon_local_tiers tiers_without_icon
      emojiTier_without_icon [OF assms(1,2)] explicitTier_without_icon [OF assms(1,3)])

lemma deriveServiceUrl_without_icon:
  "deriveServiceUrl (cfg\<lparr>icon := x\<rparr>) = deriveServiceUrl cfg"
  by (simp add: deriveServiceUrl_def mcpUrl_def apiBaseUrl_def)

lemma favicon_without_icon:
  "loadSourceIcon_favicon e (source\<lparr>config := (config source)\<lparr>icon := None\<rparr>\<rparr>)
     = loadSourceIcon_favicon e source"
  by (simp add: loadSourceIcon_favicon_def sourceCacheKey_def deriveServiceUrl_without_icon
      fun_eq_iff Let_def
      cong del: option.case_cong_weak sum.case_cong_weak if_weak_cong)

text \<open>
  C10: for a source whose icon string is defined but is neither an emoji (for
  \<open>isEmoji\<close>) nor starts with \<open>./\<close>, a remote URL for one, \<open>loadSourceIcon\<close>
  gives the result and leaves the state that it gives and leaves for the same source
  without an icon: the icon string is neither returned nor cached, and resolution goes
  through auto-discovery and the favicon fallback.
\<close>

theorem icon_url_ignored:
  assumes "icon (config source) = Some i" and "\<not> isEmoji e i" and "\<not> startsWith i (str ''./'')"
  shows "loadSourceIcon e source st
       = loadSourceIcon e (source\<lparr>config := (config source)\<lparr>icon := None\<rparr>\<rparr>) st"
  by (simp only: loadSourceIcon_def local_without_icon [OF assms] favicon_without_icon)

theorem icon_url_ignored_witness:
  "loadSourceIcon logoEnv remoteIconSource emptyCaches = loadSourceIcon logoEnv linearSource emptyCaches
   \<and> fst (loadSourceIcon logoEnv remoteIconSource emptyCaches) = Some (str ''https://logo'')"
proof -
  have a: "icon (config remoteIconSource) = Some (str ''https://cdn.linear.app/icon.png'')"
    by (simp add: remoteIconSource_def)
  have b: "\<not> isEmoji logoEnv (str ''https://cdn.linear.app/icon.png'')"
    by (simp add: isEmoji_def str_def)
  have c: "\<not> startsWith (str ''https://cdn.linear.app/icon.png'') (str ''./'')"
    by (simp add: startsWith_def str_def)
  have d: "remoteIconSource\<lparr>config := (config remoteIconSource)\<lparr>icon := None\<rparr>\<rparr> = linearSource"
    by (simp add: remoteIconSource_def linearSource_def)
  have r: "fst (loadSourceIcon logoEnv linearSource emptyCaches) = Some (str ''https://logo'')"
    by code_simp
  from icon_url_ignored [OF a b c, of emptyCaches] d r show ?thesis
    by simp
qed

subsection \<open>Skill icons\<close>

lemma skill_no_path:
  assumes "truthyValue (iconPath skill) = None"
  shows "loadSkillIcon e skill w st = (None, st)"
  using assms by (simp add: loadSkillIcon_def)

lemma skill_cached:
  assumes "truthyValue (iconPath skill) = Some p"
    and "truthyValue (iconCache st (str ''skill:'' @ skillCacheKey skill w)) = Some c"
  shows "loadSkillIcon e skill w st = (Some c, st)"
  using assms by (simp add: loadSkillIcon_def skillIconCache_get_def skillCacheKey_def)

lemma skill_no_match:
  assumes "truthyValue (iconPath skill) = Some p"
    and "truthyValue (iconCache st (str ''skill:'' @ skillCacheKey skill w)) = None"
    and "skillsMatch p = None"
  shows "loadSkillIcon e skill w st = (None, st)"
  using assms by (simp add: loadSkillIcon_def skillIconCache_get_def skillCacheKey_def)

lemma skill_read_fails:
  assumes "truthyValue (iconPath skill) = Some p"
    and "truthyValue (iconCache st (str ''skill:'' @ skillCacheKey skill w)) = None"
    and "skillsMatch p = Some g"
    and "readWorkspaceImage e w (skillRelativePath g) = Inl err"
  shows "loadSkillIcon e skill w st =
     (None, st\<lparr>calls := calls st @ [ReadWorkspaceImage w (skillRelativePath g)],
               console := console st @
                 [(str ''[IconCache] Failed to load skill icon '' @ skillRelativePath g @ str '':'', err)]\<rparr>)"
  using assms
  by (cases g) (simp add: loadSkillIcon_def skillIconCache_get_def skillCacheKey_def
      skillRelativePath_def Let_def)

lemma skill_read_raw:
  assumes "truthyValue (iconPath skill) = Some p"
    and "truthyValue (iconCache st (str ''skill:'' @ skillCacheKey skill w)) = None"
    and "skillsMatch p = Some g"
    and "\<not> endsWith (skillRelativePath g) (str ''.svg'')"
    and "readWorkspaceImage e w (skillRelativePath g) = Inr v"
  shows "loadSkillIcon e skill w st =
     (Some v, skillIconCache_set (skillCacheKey skill w) v
                (st\<lparr>calls := calls st @ [ReadWorkspaceImage w (skillRelativePath g)]\<rparr>))"
  using assms
  by (cases g) (simp add: loadSkillIcon_def skillIconCache_get_def skillCacheKey_def
      skillRelativePath_def Let_def)

text \<open>
  C8 (amended): for a skill whose \<open>iconPath\<close> is absent or empty or does not match
  \<open>skills/{slug}/{remainder}\<close>, and for one whose file read fails, \<open>loadSkillIcon\<close>
  writes nothing to the icon cache (nor to the logo-URL cache). It returns \<open>null\<close> when
  \<open>iconPath\<close> is absent or empty; otherwise it returns the non-empty value cached under
  the skill's key when there is one, and \<open>null\<close> when there is none. After such a call
  with nothing cached under the key, a call for the same slug with a matching path and a
  readable file returns the file's content and caches it (stated for a file that is not
  an SVG, whose content is cached as it is).
\<close>

theorem loadSkillIcon_failure_not_cached:
  assumes bad: "truthyValue (iconPath skill) = None
      \<or> (\<exists>p. iconPath skill = Some p \<and> skillsMatch p = None)
      \<or> (\<exists>p g err. iconPath skill = Some p \<and> skillsMatch p = Some g
            \<and> readWorkspaceImage e w (skillRelativePath g) = Inl err)"
  shows "fst (loadSkillIcon e skill w st)
       = (if truthyValue (iconPath skill) = None then None
          else truthyValue (iconCache st (str ''skill:'' @ skillCacheKey skill w)))
     \<and> iconCache (snd (loadSkillIcon e skill w st)) = iconCache st
     \<and> logoUrlCache (snd (loadSkillIcon e skill w st)) = logoUrlCache st
     \<and> (truthyValue (iconCache st (str ''skill:'' @ skillCacheKey skill w)) = None
          \<and> iconPath skill2 = Some p2 \<and> p2 \<noteq> [] \<and> SkillConfig.slug skill2 = SkillConfig.slug skill
          \<and> skillsMatch p2 = Some g2 \<and> \<not> endsWith (skillRelativePath g2) (str ''.svg'')
          \<and> readWorkspaceImage e2 w (skillRelativePath g2) = Inr v
         \<longrightarrow> fst (loadSkillIcon e2 skill2 w (snd (loadSkillIcon e skill w st))) = Some v
           \<and> iconCache (snd (loadSkillIcon e2 skill2 w (snd (loadSkillIcon e skill w st))))
                (str ''skill:'' @ skillCacheKey skill w) = Some v)"
proof -
  let ?K = "str ''skill:'' @ skillCacheKey skill w"
  have frame: "fst (loadSkillIcon e skill w st)
       = (if truthyValue (iconPath skill) = None then None else truthyValue (iconCache st ?K))
     \<and> iconCache (snd (loadSkillIcon e skill w st)) = iconCache st
     \<and> logoUrlCache (snd (loadSkillIcon e skill w st)) = logoUrlCache st"
  proof (cases "truthyValue (iconPath skill)")
    case None
    then show ?thesis
      by (simp add: skill_no_path)
  next
    case (Some p)
    note path = this
    from truthyValue_Some [OF Some] have ip: "iconPath skill = Some p"
      by simp
    show ?thesis
    proof (cases "truthyValue (iconCache st ?K)")
      case (Some c)
      with path show ?thesis
        by (simp add: skill_cached)
    next
      case None
      note miss = this
      from bad path ip consider "skillsMatch p = None"
        | g err where "skillsMatch p = Some g" and "readWorkspaceImage e w (skillRelativePath g) = Inl err"
        by auto
      then show ?thesis
      proof cases
        case 1
        from skill_no_match [OF path miss 1] path miss show ?thesis
          by simp
      next
        case 2
        from skill_read_fails [OF path miss 2] path miss show ?thesis
          by simp
      qed
    qed
  qed
  let ?s1 = "snd (loadSkillIcon e skill w st)"
  have retry: "fst (loadSkillIcon e2 skill2 w ?s1) = Some v
      \<and> iconCache (snd (loadSkillIcon e2 skill2 w ?s1)) ?K = Some v"
    if miss: "truthyValue (iconCache st ?K) = None"
      and ok: "iconPath skill2 = Some p2" "p2 \<noteq> []" "SkillConfig.slug skill2 = SkillConfig.slug skill"
        "skillsMatch p2 = Some g2" "\<not> endsWith (skillRelativePath g2) (str ''.svg'')"
        "readWorkspaceImage e2 w (skillRelativePath g2) = Inr v"
  proof -
    have k: "skillCacheKey skill2 w = skillCacheKey skill w"
      using ok(3) by (simp add: skillCacheKey_def)
    have p: "truthyValue (iconPath skill2) = Some p2"
      using ok(1,2) by (simp add: truthyValue_simps)
    have m: "truthyValue (iconCache ?s1 (str ''skill:'' @ skillCacheKey skill2 w)) = None"
      using frame miss k by simp
    from skill_read_raw [OF p m ok(4,5,6)] k show ?thesis
      by (simp add: skillIconCache_set_def)
  qed
  from frame retry show ?thesis
    by blast
qed

theorem loadSkillIcon_failure_not_cached_witness:
  "fst (loadSkillIcon skillEnv (commitSkill (str ''/tmp/icon.png'')) (str ''ws'') emptyCaches) = None
   \<and> iconCache (snd (loadSkillIcon skillEnv (commitSkill (str ''/tmp/icon.png'')) (str ''ws'') emptyCaches))
       = iconCache emptyCaches
   \<and> fst (loadSkillIcon skillEnv (commitSkill (str ''/home/u/ws/skills/commit/icon.png'')) (str ''ws'')
            (snd (loadSkillIcon skillEnv (commitSkill (str ''/tmp/icon.png'')) (str ''ws'') emptyCaches)))
       = Some (str ''data:image/png;base64,AA=='')
   \<and> fst (loadSkillIcon skillEnv (commitSkill (str ''/tmp/icon.png'')) (str ''ws'') cachedSkillCaches)
       = Some (str ''data:image/png;base64,AA=='')
   \<and> fst (loadSkillIcon skillEnv \<lparr>SkillConfig.slug = str ''commit'', iconPath = None\<rparr> (str ''ws'')
            cachedSkillCaches) = None"
proof -
  let ?bad = "commitSkill (str ''/tmp/icon.png'')"
  let ?good = "commitSkill (str ''/home/u/ws/skills/commit/icon.png'')"
  let ?none = "\<lparr>SkillConfig.slug = str ''commit'', iconPath = None\<rparr>"
  have nomatch: "skillsMatch (str ''/tmp/icon.png'') = None"
    by code_simp
  have bad: "truthyValue (iconPath ?bad) = None
      \<or> (\<exists>p. iconPath ?bad = Some p \<and> skillsMatch p = None)
      \<or> (\<exists>p g err. iconPath ?bad = Some p \<and> skillsMatch p = Some g
            \<and> readWorkspaceImage skillEnv (str ''ws'') (skillRelativePath g) = Inl err)"
    using nomatch by (simp add: commitSkill_def)
  have absent: "truthyValue (iconPath ?none) = None
      \<or> (\<exists>p. iconPath ?none = Some p \<and> skillsMatch p = None)
      \<or> (\<exists>p g err. iconPath ?none = Some p \<and> skillsMatch p = Some g
            \<and> readWorkspaceImage skillEnv (str ''ws'') (skillRelativePath g) = Inl err)"
    by (simp add: truthyValue_simps)
  have path: "truthyValue (iconPath ?bad) \<noteq> None" "truthyValue (iconPath ?none) = None"
    by (simp_all add: commitSkill_def truthyValue_simps str_def)
  have key: "str ''skill:'' @ skillCacheKey ?bad (str ''ws'') = str ''skill:ws:commit''"
    by (simp add: skillCacheKey_def commitSkill_def str_def)
  have miss: "truthyValue (iconCache emptyCaches (str ''skill:ws:commit'')) = None"
    by (simp add: emptyCaches_def truthyValue_simps)
  have hit: "truthyValue (iconCache cachedSkillCaches (str ''skill:ws:commit''))
      = Some (str ''data:image/png;base64,AA=='')"
    by (simp add: cachedSkillCaches_def emptyCaches_def truthyValue_simps str_def)
  have g: "skillsMatch (str ''/home/u/ws/skills/commit/icon.png'') = Some (str ''commit'', str ''icon.png'')"
    by code_simp
  have rel: "skillRelativePath (str ''commit'', str ''icon.png'') = str ''skills/commit/icon.png''"
    by code_simp
  have ok: "iconPath ?good = Some (str ''/home/u/ws/skills/commit/icon.png'')"
    "str ''/home/u/ws/skills/commit/icon.png'' \<noteq> []"
    "SkillConfig.slug ?good = SkillConfig.slug ?bad"
    by (simp_all add: commitSkill_def str_def)
  have ok2: "\<not> endsWith (skillRelativePath (str ''commit'', str ''icon.png'')) (str ''.svg'')"
    "readWorkspaceImage skillEnv (str ''ws'') (skillRelativePath (str ''commit'', str ''icon.png''))
       = Inr (str ''data:image/png;base64,AA=='')"
    unfolding rel by (simp_all add: skillEnv_def endsWith_def str_def)
  from loadSkillIcon_failure_not_cached [OF bad, where st = emptyCaches and ?skill2.0 = ?good
      and ?p2.0 = "str ''/home/u/ws/skills/commit/icon.png''" and ?g2.0 = "(str ''commit'', str ''icon.png'')"
      and ?e2.0 = skillEnv and v = "str ''data:image/png;base64,AA==''"] path(1) miss g ok ok2
  have a: "fst (loadSkillIcon skillEnv ?bad (str ''ws'') emptyCaches) = None
   \<and> iconCache (snd (loadSkillIcon skillEnv ?bad (str ''ws'') emptyCaches)) = iconCache emptyCaches
   \<and> fst (loadSkillIcon skillEnv ?good (str ''ws'') (snd (loadSkillIcon skillEnv ?bad (str ''ws'') emptyCaches)))
       = Some (str ''data:image/png;base64,AA=='')"
    unfolding key by simp
  from loadSkillIcon_failure_not_cached [OF bad, where st = cachedSkillCaches] path(1) hit
  have b: "fst (loadSkillIcon skillEnv ?bad (str ''ws'') cachedSkillCaches)
       = Some (str ''data:image/png;base64,AA=='')"
    unfolding key by simp
  from loadSkillIcon_failure_not_cached [OF absent, where st = cachedSkillCaches] path(2)
  have c: "fst (loadSkillIcon skillEnv ?none (str ''ws'') cachedSkillCaches) = None"
    by simp
  from a b c show ?thesis
    by simp
qed

text \<open>
  C8, as stated, fails: the cache is looked up before the path is matched, so with the
  icon of the skill cached by an earlier call, a call whose \<open>iconPath\<close> does not match
  the pattern returns the cached icon, not \<open>null\<close>.
\<close>

theorem loadSkillIcon_malformed_path_returns_cached:
  "skillsMatch (str ''/tmp/icon.png'') = None
   \<and> fst (loadSkillIcon skillEnv (commitSkill (str ''/tmp/icon.png'')) (str ''ws'')
            (snd (loadSkillIcon skillEnv (commitSkill (str ''/home/u/ws/skills/commit/icon.png''))
                   (str ''ws'') emptyCaches)))
       = Some (str ''data:image/png;base64,AA=='')"
  by code_simp

subsection \<open>Icons that are not emoji\<close>

lemma digitsJoined_matched:
  assumes "Emoji e 0x31" and "Emoji e 0x32"
  shows "isEmoji e digitsJoined"
  using assms
  by (simp add: isEmoji_def EMOJI_REGEX_test_def digitsJoined_def isHighSurrogate_def
      isLowSurrogate_def)

text \<open>
  C9: the string of digit one, U+FE0F, U+200D, digit two, U+FE0F has five code units and
  is not an emoji, and the pattern accepts it: each digit has the property Emoji and is
  followed by U+FE0F, and the pattern lets any two such elements be joined by U+200D. So
  the emoji branch is taken for it: from empty caches the call returns the marker
  followed by the string and caches it, without any I/O.
\<close>

theorem joined_digits_take_emoji_branch:
  "length digitsJoined \<le> 8 \<and> isEmoji keycapEnv digitsJoined
   \<and> loadSourceIcon keycapEnv (localSource (Some digitsJoined)) emptyCaches
      = (Some (EMOJI_ICON_PREFIX @ digitsJoined),
         emptyCaches\<lparr>iconCache := [str ''source:ws:x'' \<mapsto> EMOJI_ICON_PREFIX @ digitsJoined]\<rparr>)"
proof -
  have len: "length digitsJoined \<le> 8"
    by (simp add: digitsJoined_def)
  have m: "isEmoji keycapEnv digitsJoined"
    by (rule digitsJoined_matched) (simp_all add: keycapEnv_def bareEnv_def)
  have k: "str ''source:'' @ sourceCacheKey (localSource (Some digitsJoined)) = str ''source:ws:x''"
    by (simp add: sourceCacheKey_def localSource_def str_def)
  have p1: "truthyValue (iconCache emptyCaches (str ''source:'' @ sourceCacheKey (localSource (Some digitsJoined)))) = None"
    by (simp add: emptyCaches_def truthyValue_simps)
  have p2: "icon (config (localSource (Some digitsJoined))) = Some digitsJoined"
    by (simp add: localSource_def)
  have "sourceIconCache_set (sourceCacheKey (localSource (Some digitsJoined))) v emptyCaches
      = emptyCaches\<lparr>iconCache := [str ''source:ws:x'' \<mapsto> v]\<rparr>" for v
    unfolding sourceIconCache_set_def k by (simp add: emptyCaches_def)
  with loadSourceIcon_emoji [OF p1 p2 m] len m show ?thesis
    by simp
qed

end
